theory Spec2Isabelle
  imports Main
begin

section \<open>Strings and opaque JSON values\<close>

text \<open>
  Payloads, results and attribute dictionaries are opaque to the bridge: they are kept as
  their JSON text. Strings are byte strings. \<open>String.prototype.toLowerCase\<close> belongs to the
  runtime, not to the program: the cloud client below carries it as a component of its
  environment, and what is proved of the client holds for every such function.
  \<open>ascii_toLowerCase\<close>, which lowers the letters A to Z and keeps every other byte, is the
  one that the sample clients run with.
\<close>

type_synonym json = string

definition lower_char :: "char \<Rightarrow> char" where
  "lower_char c =
     (let n = (of_char c :: nat) in if 65 \<le> n \<and> n \<le> 90 then char_of (n + 32) else c)"

definition ascii_toLowerCase :: "string \<Rightarrow> string" where
  "ascii_toLowerCase s = map lower_char s"

fun starts_with :: "'a list \<Rightarrow> 'a list \<Rightarrow> bool" where
  "starts_with [] ys = True"
| "starts_with (x # xs) [] = False"
| "starts_with (x # xs) (y # ys) = (x = y \<and> starts_with xs ys)"

text \<open>\<open>s.includes(sub)\<close> of JavaScript.\<close>

fun str_includes :: "string \<Rightarrow> string \<Rightarrow> bool" where
  "str_includes [] sub = (sub = [])"
| "str_includes (c # cs) sub = (starts_with sub (c # cs) \<or> str_includes cs sub)"

section \<open>Configuration (config.ts)\<close>

record bridge_config =
  haUrl :: string
  haToken :: string
  cloudUrl :: string
  bridgeId :: string
  credentialPath :: string
  heartbeatInterval :: nat
  protocolVersion :: string

section \<open>Hub session: HAWebSocketClient (bridge/src/ha-ws-client.ts)\<close>

subsection \<open>Messages\<close>

text \<open>\<open>HAState\<close> of ha-rest-client.ts, as far as the bridge reads it.\<close>

record ha_state =
  hs_state :: string
  hs_attributes :: "json option"
  hs_last_changed :: string
  hs_last_updated :: string

text \<open>\<open>HAStateChangedEvent\<close>: the \<open>event\<close> member of an inbound \<open>event\<close> frame.\<close>

record ha_event =
  event_type :: string
  entity_id :: string
  old_state :: "ha_state option"
  new_state :: "ha_state option"
  context_id :: "string option"

text \<open>
  \<open>HAWebSocketMessage\<close>, an inbound frame after \<open>JSON.parse\<close>. A member that is
  absent (\<open>undefined\<close>) is \<open>None\<close>.
\<close>

record ha_message =
  msg_id :: "nat option"
  msg_type :: string
  msg_success :: "bool option"
  msg_result :: json
  msg_error_message :: "string option"
  msg_event :: "ha_event option"
  msg_message :: "string option"

text \<open>The members that \<open>sendCommand\<close> spreads into a request, for the callers of the client.\<close>

datatype request_data =
    NoData
  | EventType string
  | ServiceCall "string option" "string option" json

text \<open>Frames written to the hub socket.\<close>

datatype hub_frame =
    Auth string
  | Request nat string request_data

datatype ready_state = CONNECTING | OPEN | CLOSING | CLOSED

text \<open>How a promise returned by \<open>sendCommand\<close> is settled.\<close>

datatype outcome = Resolved json | Rejected string

text \<open>The events of \<open>HAWSClientEvents\<close> that the client emits.\<close>

datatype hub_signal =
    Disconnected nat string
  | ErrorSignal string
  | StateChanged ha_event
  | Authenticated
  | AuthFailed "string option"

text \<open>
  What a handler does to the world outside the client object, in the order it does it.
  The type \<open>'k\<close> stands for the pair of closures \<open>resolve\<close>/\<open>reject\<close> stored with a
  waiter: it names the caller that awaits the promise.
\<close>

datatype 'k hub_effect =
    WsSend hub_frame
  | Settle 'k outcome
  | ConnectResolve
  | ConnectReject string
  | Emit hub_signal
  | SetTimeout nat nat
  | ReconnectIn nat
  | NewWebSocket string
  | WsCloseCall

subsection \<open>State\<close>

text \<open>
  A handle returned by \<open>setTimeout\<close>: its delay, and whether the timer is still
  to fire (neither fired nor cleared).
\<close>

datatype timer = Timer (delay: nat) (pending: bool)

record 'k ha_client =
  config :: bridge_config
  ws :: "ready_state option"
  messageId :: nat
  reconnectTimer :: "timer option"
  authenticated :: bool
  eventSubscriptionId :: "nat option"
  reconnectAttempts :: nat
  shouldReconnect :: bool
  pendingResponses :: "nat \<rightharpoonup> 'k"

definition maxReconnectAttempts :: nat where
  "maxReconnectAttempts = 10"

definition reconnectDelay :: nat where
  "reconnectDelay = 1000"

text \<open>The object after its constructor.\<close>

definition new_ha_client :: "bridge_config \<Rightarrow> 'k ha_client" where
  "new_ha_client cfg =
     \<lparr> config = cfg, ws = None, messageId = 1, reconnectTimer = None, authenticated = False,
       eventSubscriptionId = None, reconnectAttempts = 0, shouldReconnect = True,
       pendingResponses = Map.empty \<rparr>"

subsection \<open>Methods\<close>

definition getWebSocketUrl :: "'k ha_client \<Rightarrow> string" where
  "getWebSocketUrl s =
     (let httpUrl = haUrl (config s);
          wsUrl = (if starts_with ''http'' httpUrl then ''ws'' @ drop 4 httpUrl else httpUrl)
      in if str_includes httpUrl ''supervisor/core'' \<or> str_includes httpUrl ''supervisor:80/core''
         then wsUrl @ ''/websocket''
         else wsUrl @ ''/api/websocket'')"

definition send :: "hub_frame \<Rightarrow> 'k ha_client \<Rightarrow> 'k hub_effect list" where
  "send m s = (if ws s = Some OPEN then [WsSend m] else [])"

definition sendAuth :: "'k ha_client \<Rightarrow> 'k hub_effect list \<times> 'k ha_client" where
  "sendAuth s = (send (Auth (haToken (config s))) s, s)"

definition subscribeToEvents :: "'k ha_client \<Rightarrow> 'k hub_effect list \<times> 'k ha_client" where
  "subscribeToEvents s =
     (let i = messageId s;
          s1 = s\<lparr>messageId := i + 1\<rparr>;
          s2 = s1\<lparr>eventSubscriptionId := Some i\<rparr>
      in (send (Request i ''subscribe_events'' (EventType ''state_changed'')) s2, s2))"

definition handleEvent :: "ha_message \<Rightarrow> 'k ha_client \<Rightarrow> 'k hub_effect list \<times> 'k ha_client" where
  "handleEvent m s =
     (case msg_event m of
        None \<Rightarrow> ([], s)
      | Some ev \<Rightarrow> if event_type ev = ''state_changed'' then ([Emit (StateChanged ev)], s) else ([], s))"

text \<open>\<open>message.error?.message as string || 'Unknown error'\<close>\<close>

definition error_text :: "ha_message \<Rightarrow> string" where
  "error_text m =
     (case msg_error_message m of
        None \<Rightarrow> ''Unknown error''
      | Some t \<Rightarrow> if t = [] then ''Unknown error'' else t)"

definition handleResult :: "ha_message \<Rightarrow> 'k ha_client \<Rightarrow> 'k hub_effect list \<times> 'k ha_client" where
  "handleResult m s =
     (case msg_id m of
        None \<Rightarrow> ([], s)
      | Some i \<Rightarrow>
          if i = 0 then ([], s)
          else (case pendingResponses s i of
                  None \<Rightarrow> ([], s)
                | Some k \<Rightarrow>
                    (let s1 = s\<lparr>pendingResponses := (pendingResponses s)(i := None)\<rparr>
                     in if msg_success m = Some True
                        then ([Settle k (Resolved (msg_result m))], s1)
                        else ([Settle k (Rejected (error_text m))], s1))))"

text \<open>The text of a template literal holding a possibly undefined string.\<close>

definition show_undefined :: "string option \<Rightarrow> string" where
  "show_undefined t = (case t of None \<Rightarrow> ''undefined'' | Some x \<Rightarrow> x)"

definition handleMessage :: "ha_message \<Rightarrow> 'k ha_client \<Rightarrow> 'k hub_effect list \<times> 'k ha_client" where
  "handleMessage m s =
     (if msg_type m = ''auth_required'' then sendAuth s
      else if msg_type m = ''auth_ok'' then
        (let s1 = s\<lparr>authenticated := True\<rparr>;
             (es, s2) = subscribeToEvents s1
         in ([Emit Authenticated] @ es @ [ConnectResolve], s2))
      else if msg_type m = ''auth_invalid'' then
        ([Emit (AuthFailed (msg_message m)),
          ConnectReject (''HA auth failed: '' @ show_undefined (msg_message m))], s)
      else if msg_type m = ''event'' then handleEvent m s
      else if msg_type m = ''result'' then handleResult m s
      else ([], s))"

definition sendCommand ::
  "'k \<Rightarrow> string \<Rightarrow> request_data \<Rightarrow> 'k ha_client \<Rightarrow> 'k hub_effect list \<times> 'k ha_client" where
  "sendCommand k type data s =
     (if \<not> authenticated s then ([Settle k (Rejected ''Not authenticated'')], s)
      else
        (let i = messageId s;
             s1 = s\<lparr>messageId := i + 1\<rparr>;
             s2 = s1\<lparr>pendingResponses := (pendingResponses s1)(i \<mapsto> k)\<rparr>
         in (send (Request i type data) s2 @ [SetTimeout i 30000], s2)))"

text \<open>The callback that \<open>sendCommand\<close> hands to \<open>setTimeout\<close> for request \<open>i\<close>.\<close>

definition commandTimeout :: "nat \<Rightarrow> 'k ha_client \<Rightarrow> 'k hub_effect list \<times> 'k ha_client" where
  "commandTimeout i s =
     (case pendingResponses s i of
        None \<Rightarrow> ([], s)
      | Some k \<Rightarrow>
          ([Settle k (Rejected ''Command timeout'')],
           s\<lparr>pendingResponses := (pendingResponses s)(i := None)\<rparr>))"

definition callService ::
  "'k \<Rightarrow> string option \<Rightarrow> string option \<Rightarrow> json \<Rightarrow> 'k ha_client \<Rightarrow>
     'k hub_effect list \<times> 'k ha_client" where
  "callService k domain service serviceData s =
     sendCommand k ''call_service'' (ServiceCall domain service serviceData) s"

definition clearTimeout :: "timer option \<Rightarrow> timer option" where
  "clearTimeout t = map_option (\<lambda>x. Timer (delay x) False) t"

definition scheduleReconnect :: "'k ha_client \<Rightarrow> 'k hub_effect list \<times> 'k ha_client" where
  "scheduleReconnect s =
     (let s1 = s\<lparr>reconnectTimer := clearTimeout (reconnectTimer s)\<rparr>
      in if reconnectAttempts s1 \<ge> maxReconnectAttempts then ([], s1)
         else
           (let d = min (reconnectDelay * 2 ^ reconnectAttempts s1) 30000;
                s2 = s1\<lparr>reconnectAttempts := reconnectAttempts s1 + 1\<rparr>
            in ([ReconnectIn d], s2\<lparr>reconnectTimer := Some (Timer d True)\<rparr>)))"

definition connect :: "'k ha_client \<Rightarrow> 'k hub_effect list \<times> 'k ha_client" where
  "connect s = ([NewWebSocket (getWebSocketUrl s)], s\<lparr>ws := Some CONNECTING\<rparr>)"

definition disconnect :: "'k ha_client \<Rightarrow> 'k hub_effect list \<times> 'k ha_client" where
  "disconnect s =
     (let s1 = s\<lparr>shouldReconnect := False\<rparr>;
          s2 = (if reconnectTimer s1 \<noteq> None then s1\<lparr>reconnectTimer := None\<rparr> else s1);
          (es, s3) = (if ws s2 \<noteq> None then ([WsCloseCall], s2\<lparr>ws := None\<rparr>) else ([], s2));
          s4 = s3\<lparr>authenticated := False\<rparr>
      in (es, s4\<lparr>pendingResponses := Map.empty\<rparr>))"

subsection \<open>Socket and timer callbacks\<close>

text \<open>
  The socket library moves \<open>readyState\<close> before it calls a listener; that move is the
  first update of each callback below.
\<close>

definition on_open :: "'k ha_client \<Rightarrow> 'k hub_effect list \<times> 'k ha_client" where
  "on_open s = ([], s\<lparr>ws := map_option (\<lambda>_. OPEN) (ws s), reconnectAttempts := 0\<rparr>)"

definition on_close :: "nat \<Rightarrow> string \<Rightarrow> 'k ha_client \<Rightarrow> 'k hub_effect list \<times> 'k ha_client" where
  "on_close code reason s =
     (let s0 = s\<lparr>ws := map_option (\<lambda>_. CLOSED) (ws s)\<rparr>;
          s1 = s0\<lparr>authenticated := False\<rparr>;
          s2 = s1\<lparr>eventSubscriptionId := None\<rparr>
      in if shouldReconnect s2
         then (let (es, s3) = scheduleReconnect s2 in (Emit (Disconnected code reason) # es, s3))
         else ([Emit (Disconnected code reason)], s2))"

definition on_error :: "string \<Rightarrow> 'k ha_client \<Rightarrow> 'k hub_effect list \<times> 'k ha_client" where
  "on_error err s = ([Emit (ErrorSignal err), ConnectReject err], s)"

text \<open>
  The callback of the reconnect timer. It runs only for a timer that is still pending; a
  rejected \<open>connect()\<close> is caught and logged there.
\<close>

definition reconnectTimerFired :: "'k ha_client \<Rightarrow> 'k hub_effect list \<times> 'k ha_client" where
  "reconnectTimerFired s =
     (case reconnectTimer s of
        None \<Rightarrow> ([], s)
      | Some t \<Rightarrow>
          if pending t then connect (s\<lparr>reconnectTimer := Some (Timer (delay t) False)\<rparr>)
          else ([], s))"

subsection \<open>Runs of the client\<close>

datatype 'k hub_event =
    WsOpen
  | WsMessage ha_message
  | WsClose nat string
  | WsError string
  | ReconnectTimerFired
  | CommandTimerFired nat
  | CallConnect
  | CallSendCommand 'k string request_data
  | CallDisconnect

fun hub_step :: "'k hub_event \<Rightarrow> 'k ha_client \<Rightarrow> 'k hub_effect list \<times> 'k ha_client" where
  "hub_step WsOpen s = on_open s"
| "hub_step (WsMessage m) s = handleMessage m s"
| "hub_step (WsClose code reason) s = on_close code reason s"
| "hub_step (WsError err) s = on_error err s"
| "hub_step ReconnectTimerFired s = reconnectTimerFired s"
| "hub_step (CommandTimerFired i) s = commandTimeout i s"
| "hub_step CallConnect s = connect s"
| "hub_step (CallSendCommand k type data) s = sendCommand k type data s"
| "hub_step CallDisconnect s = disconnect s"

fun hub_run :: "'k hub_event list \<Rightarrow> 'k ha_client \<Rightarrow> 'k hub_effect list \<times> 'k ha_client" where
  "hub_run [] s = ([], s)"
| "hub_run (e # es) s =
     (fst (hub_step e s) @ fst (hub_run es (snd (hub_step e s))),
      snd (hub_run es (snd (hub_step e s))))"

text \<open>The promises settled, the frames written and the reconnect delays of a run.\<close>

fun settlements :: "'k hub_effect list \<Rightarrow> ('k \<times> outcome) list" where
  "settlements [] = []"
| "settlements (Settle k r # es) = (k, r) # settlements es"
| "settlements (_ # es) = settlements es"

fun frames_written :: "'k hub_effect list \<Rightarrow> hub_frame list" where
  "frames_written [] = []"
| "frames_written (WsSend f # es) = f # frames_written es"
| "frames_written (_ # es) = frames_written es"

fun reconnect_delays :: "'k hub_effect list \<Rightarrow> nat list" where
  "reconnect_delays [] = []"
| "reconnect_delays (ReconnectIn d # es) = d # reconnect_delays es"
| "reconnect_delays (_ # es) = reconnect_delays es"

text \<open>A sample configuration and a client that has connected and authenticated.\<close>

definition sample_config :: bridge_config where
  "sample_config =
     \<lparr> haUrl = ''http://supervisor/core'', haToken = ''token'',
       cloudUrl = ''https://helm.replit.app'', bridgeId = ''helm-bridge-abcd1234'',
       credentialPath = ''/data/credentials.json'', heartbeatInterval = 60000,
       protocolVersion = ''1.0.0'' \<rparr>"

definition fresh_client :: "string ha_client" where
  "fresh_client = new_ha_client sample_config"

definition auth_ok_message :: ha_message where
  "auth_ok_message =
     \<lparr> msg_id = None, msg_type = ''auth_ok'', msg_success = None, msg_result = [],
       msg_error_message = None, msg_event = None, msg_message = None \<rparr>"

definition online_client :: "string ha_client" where
  "online_client = snd (hub_run [CallConnect, WsOpen, WsMessage auth_ok_message] fresh_client)"

subsection \<open>Scenarios of the hub session\<close>

text \<open>The delay \<open>scheduleReconnect\<close> computes for attempt number \<open>n\<close> (counted from 0).\<close>

definition backoff :: "nat \<Rightarrow> nat" where
  "backoff n = min (1000 * 2 ^ n) 30000"

text \<open>
  One failed reconnect attempt as the client sees it: the socket closes, the reconnect timer
  fires and opens a new socket, and that socket reports an error instead of opening. Its
  own close starts the next attempt.
\<close>

definition failed_attempt :: "nat \<Rightarrow> string \<Rightarrow> string \<Rightarrow> 'k hub_event list" where
  "failed_attempt code reason err = [WsClose code reason, ReconnectTimerFired, WsError err]"

text \<open>
  One reconnect attempt that gets as far as the \<open>open\<close> callback: the socket closes, the
  reconnect timer fires and opens a new socket, and that socket opens. Its own close starts
  the next attempt.
\<close>

definition opened_attempt :: "nat \<Rightarrow> string \<Rightarrow> 'k hub_event list" where
  "opened_attempt code reason = [WsClose code reason, ReconnectTimerFired, WsOpen]"

fun new_sockets :: "'k hub_effect list \<Rightarrow> nat" where
  "new_sockets [] = 0"
| "new_sockets (NewWebSocket url # es) = Suc (new_sockets es)"
| "new_sockets (_ # es) = new_sockets es"

text \<open>An inbound \<open>result\<close> frame that answers request \<open>i\<close>.\<close>

fun result_for :: "nat \<Rightarrow> 'k hub_event \<Rightarrow> bool" where
  "result_for i (WsMessage m) = (msg_type m = ''result'' \<and> msg_id m = Some i)"
| "result_for i _ = False"

text \<open>
  The events that cannot take waiter \<open>i\<close> out of the table: all but \<open>disconnect()\<close>,
  the waiter's own timer and a result frame for \<open>i\<close>.
\<close>

definition leaves_waiter :: "nat \<Rightarrow> 'k hub_event \<Rightarrow> bool" where
  "leaves_waiter i e = (e \<noteq> CallDisconnect \<and> e \<noteq> CommandTimerFired i \<and> \<not> result_for i e)"

definition late_result :: ha_message where
  "late_result =
     \<lparr> msg_id = Some 2, msg_type = ''result'', msg_success = Some True, msg_result = ''[]'',
       msg_error_message = None, msg_event = None, msg_message = None \<rparr>"

definition auth_required_message :: ha_message where
  "auth_required_message =
     \<lparr> msg_id = None, msg_type = ''auth_required'', msg_success = None, msg_result = [],
       msg_error_message = None, msg_event = None, msg_message = None \<rparr>"

definition auth_invalid_message :: ha_message where
  "auth_invalid_message =
     \<lparr> msg_id = None, msg_type = ''auth_invalid'', msg_success = None, msg_result = [],
       msg_error_message = None, msg_event = None,
       msg_message = Some ''Invalid access token or password'' \<rparr>"

section \<open>Credential store: CredentialStore (bridge/src/credential-store.ts)\<close>

text \<open>
  \<open>StoredCredentials\<close> as it exists at run time: the pairing poll stores members of a
  parsed JSON body, any of which may be absent.
\<close>

record stored_credentials =
  cred_bridgeId :: "string option"
  cred_bridgeCredential :: "string option"
  cred_tenantId :: "string option"
  cred_pairedAt :: "string option"
  cred_cloudUrl :: "string option"

text \<open>
  The part of the file system the store touches: the credential file (its content as the
  value it parses to, \<open>None\<close> when the file does not exist), whether its directory
  exists, and whether the file system refuses writes, in which case \<open>mkdirSync\<close>,
  \<open>writeFileSync\<close> and \<open>unlinkSync\<close> throw.
\<close>

record file_system =
  file_content :: "stored_credentials option"
  dir_exists :: bool
  read_only :: bool

record credential_store =
  filePath :: string
  credentials :: "stored_credentials option"
  disk :: file_system

text \<open>The constructor calls \<open>load()\<close>.\<close>

definition new_credential_store :: "string \<Rightarrow> file_system \<Rightarrow> credential_store" where
  "new_credential_store path fs = \<lparr> filePath = path, credentials = file_content fs, disk = fs \<rparr>"

text \<open>
  A method that may throw returns the message of the exception, if one was thrown, with
  the state it leaves behind.
\<close>

definition save :: "stored_credentials \<Rightarrow> credential_store \<Rightarrow> string option \<times> credential_store" where
  "save c st =
     (if read_only (disk st) then (Some ''EROFS: read-only file system'', st)
      else (None, st\<lparr>disk := (disk st)\<lparr>dir_exists := True, file_content := Some c\<rparr>,
                      credentials := Some c\<rparr>))"

definition isPaired :: "credential_store \<Rightarrow> bool" where
  "isPaired st =
     (case credentials st of
        None \<Rightarrow> False
      | Some c \<Rightarrow> (case cred_bridgeCredential c of None \<Rightarrow> False | Some x \<Rightarrow> x \<noteq> []))"

definition clear :: "credential_store \<Rightarrow> string option \<times> credential_store" where
  "clear st =
     (if file_content (disk st) \<noteq> None then
        (if read_only (disk st) then (Some ''EROFS: read-only file system'', st)
         else (None, st\<lparr>disk := (disk st)\<lparr>file_content := None\<rparr>, credentials := None\<rparr>))
      else (None, st\<lparr>credentials := None\<rparr>))"

section \<open>Cloud session: CloudClient (cloud-client.ts)\<close>

subsection \<open>Messages\<close>

text \<open>
  A time read from the clock is kept as the clock's value in milliseconds; its ISO text is
  not computed.
\<close>

type_synonym time = int

record payload =
  p_domain :: "string option"
  p_service :: "string option"
  p_serviceData :: "json option"

text \<open>
  \<open>CommandMessage\<close> after \<open>JSON.parse\<close>: the frame is cast, not validated, so
  \<open>commandType\<close> is any string and \<open>payload\<close> may be missing.
\<close>

record command_message =
  cmdId :: string
  issuedAt :: string
  commandType :: string
  cmd_payload :: "payload option"
  requiresAck :: bool
  ttlMs :: "nat option"

datatype cloud_message =
    AuthResult bool "string option" "string option"
  | Command command_message
  | RequestFullSync "string option"
  | RequestHeartbeat
  | DisconnectRequest string
  | UnknownMessage string

text \<open>\<open>StateChangedEvent\<close> of the protocol package, as \<open>flushStateChanges\<close> builds it.\<close>

record state_changed_event =
  entityId :: string
  oldState :: "ha_state option"
  newState :: ha_state
  timestamp :: time

record heartbeat =
  hb_bridgeId :: string
  hb_timestamp :: time
  hb_bridgeVersion :: string
  hb_protocolVersion :: string
  hb_haVersion :: string
  hb_lastEventAt :: "time option"
  hb_entityCount :: nat
  hb_reconnectCount :: nat
  hb_uptime :: int

datatype result_status = Completed | Failed | Expired

text \<open>
  Frames written to the cloud socket. A \<open>command_result\<close> carries \<open>result.haResponse\<close>
  and \<open>error.{code, message}\<close>, each possibly absent.
\<close>

datatype cloud_frame =
    Authenticate string "string option" string
  | Heartbeat heartbeat
  | StateBatch string time "state_changed_event list" bool
  | CommandAck string string time
  | CommandResult string result_status time "json option" "(string \<times> string) option"

datatype cloud_signal =
    CloudConnected
  | CloudDisconnected nat string
  | CloudAuthenticated "string option"
  | CloudAuthFailed string
  | CommandReceived command_message
  | FullSyncRequested "string option"
  | CloudError string

datatype cloud_effect =
    CloudSend cloud_frame
  | CloudEmit cloud_signal
  | CloudConnectResolve
  | CloudConnectReject string
  | CloudReconnectIn nat
  | CloudNewWebSocket string
  | CloudWsCloseCall

subsection \<open>State\<close>

text \<open>
  The client object, with the credential store it shares with the bridge (kept here, its
  single copy) and the process-wide sources it reads: \<open>BRIDGE_VERSION\<close> of the
  environment, \<open>crypto.randomUUID()\<close>, as the sequence of its draws and the number of
  draws made so far, and the runtime's \<open>String.prototype.toLowerCase\<close>.
\<close>

record cloud_client =
  cloud_config :: bridge_config
  credentialStore :: credential_store
  cloud_ws :: "ready_state option"
  cloud_authenticated :: bool
  tenantId :: "string option"
  cloud_reconnectTimer :: "timer option"
  heartbeatTimer :: bool
  cloud_reconnectAttempts :: nat
  cloud_shouldReconnect :: bool
  lastEventAt :: "time option"
  haVersion :: string
  entityCount :: nat
  startTime :: time
  reconnectCount :: nat
  bridgeVersion :: string
  randomUUID :: "nat \<Rightarrow> string"
  uuids_drawn :: nat
  toLowerCase :: "string \<Rightarrow> string"

definition new_cloud_client ::
  "bridge_config \<Rightarrow> credential_store \<Rightarrow> time \<Rightarrow> string \<Rightarrow> (nat \<Rightarrow> string) \<Rightarrow>
     (string \<Rightarrow> string) \<Rightarrow> cloud_client" where
  "new_cloud_client cfg st now version uuid lower =
     \<lparr> cloud_config = cfg, credentialStore = st, cloud_ws = None, cloud_authenticated = False,
       tenantId = None, cloud_reconnectTimer = None, heartbeatTimer = False,
       cloud_reconnectAttempts = 0, cloud_shouldReconnect = True, lastEventAt = None,
       haVersion = ''unknown'', entityCount = 0, startTime = now, reconnectCount = 0,
       bridgeVersion = version, randomUUID = uuid, uuids_drawn = 0,
       toLowerCase = lower \<rparr>"

subsection \<open>Methods\<close>

definition cloud_getWebSocketUrl :: "cloud_client \<Rightarrow> string" where
  "cloud_getWebSocketUrl s =
     (let httpUrl = cloudUrl (cloud_config s)
      in (if starts_with ''http'' httpUrl then ''ws'' @ drop 4 httpUrl else httpUrl) @ ''/ws/bridge'')"

definition cloud_send :: "cloud_frame \<Rightarrow> cloud_client \<Rightarrow> cloud_effect list" where
  "cloud_send m s = (if cloud_ws s = Some OPEN then [CloudSend m] else [])"

definition cloud_connect :: "cloud_client \<Rightarrow> cloud_effect list \<times> cloud_client" where
  "cloud_connect s =
     (if \<not> isPaired (credentialStore s) then ([CloudConnectResolve], s)
      else ([CloudNewWebSocket (cloud_getWebSocketUrl s)], s\<lparr>cloud_ws := Some CONNECTING\<rparr>))"

definition cloud_sendAuth :: "cloud_client \<Rightarrow> cloud_effect list" where
  "cloud_sendAuth s =
     (case credentials (credentialStore s) of
        None \<Rightarrow> []
      | Some c \<Rightarrow>
          cloud_send (Authenticate (bridgeId (cloud_config s)) (cred_bridgeCredential c)
                        (protocolVersion (cloud_config s))) s)"

definition startHeartbeat :: "cloud_client \<Rightarrow> cloud_client" where
  "startHeartbeat s = s\<lparr>heartbeatTimer := True\<rparr>"

definition stopHeartbeat :: "cloud_client \<Rightarrow> cloud_client" where
  "stopHeartbeat s = (if heartbeatTimer s then s\<lparr>heartbeatTimer := False\<rparr> else s)"

text \<open>\<open>message.error || 'Unknown error'\<close>\<close>

definition auth_error_text :: "string option \<Rightarrow> string" where
  "auth_error_text e =
     (case e of None \<Rightarrow> ''Unknown error'' | Some t \<Rightarrow> if t = [] then ''Unknown error'' else t)"

text \<open>
  An exception thrown by \<open>credentialStore.clear()\<close> leaves \<open>handleAuthResult\<close> and
  \<open>handleMessage\<close> at once; the \<open>message\<close> listener catches and logs it. The branch
  that ends so returns the state reached and the effects made up to the throw.
\<close>

definition handleAuthResult ::
  "bool \<Rightarrow> string option \<Rightarrow> string option \<Rightarrow> cloud_client \<Rightarrow> cloud_effect list \<times> cloud_client" where
  "handleAuthResult success tenant err s =
     (if success then
        (let s1 = s\<lparr>cloud_authenticated := True\<rparr>;
             s2 = s1\<lparr>tenantId := tenant\<rparr>
         in ([CloudEmit (CloudAuthenticated tenant), CloudConnectResolve], startHeartbeat s2))
      else
        (let error = auth_error_text err
         in if str_includes (toLowerCase s error) ''revoked''
               \<or> str_includes (toLowerCase s error) ''invalid''
            then (case clear (credentialStore s) of
                    (Some exn, st) \<Rightarrow> ([], s\<lparr>credentialStore := st\<rparr>)
                  | (None, st) \<Rightarrow>
                      ([CloudEmit (CloudAuthFailed error), CloudConnectReject error],
                       s\<lparr>credentialStore := st, cloud_shouldReconnect := False\<rparr>))
            else ([CloudEmit (CloudAuthFailed error), CloudConnectReject error], s)))"

definition sendCommandAck :: "time \<Rightarrow> string \<Rightarrow> cloud_client \<Rightarrow> cloud_effect list" where
  "sendCommandAck now c s = cloud_send (CommandAck c ''acknowledged'' now) s"

definition handleCommand ::
  "time \<Rightarrow> command_message \<Rightarrow> cloud_client \<Rightarrow> cloud_effect list \<times> cloud_client" where
  "handleCommand now m s =
     ((if requiresAck m then sendCommandAck now (cmdId m) s else [])
        @ [CloudEmit (CommandReceived m)], s)"

definition sendCommandResult ::
  "time \<Rightarrow> string \<Rightarrow> result_status \<Rightarrow> json option \<Rightarrow> (string \<times> string) option \<Rightarrow>
     cloud_client \<Rightarrow> cloud_effect list" where
  "sendCommandResult now c status result error s =
     cloud_send (CommandResult c status now result error) s"

definition sendStateBatch ::
  "time \<Rightarrow> state_changed_event list \<Rightarrow> cloud_client \<Rightarrow> cloud_effect list \<times> cloud_client" where
  "sendStateBatch now changes s =
     (if changes = [] then ([], s)
      else (cloud_send (StateBatch (randomUUID s (uuids_drawn s)) now changes False) s,
            s\<lparr>uuids_drawn := uuids_drawn s + 1\<rparr>))"

definition sendHeartbeat :: "time \<Rightarrow> cloud_client \<Rightarrow> cloud_effect list" where
  "sendHeartbeat now s =
     (if \<not> cloud_authenticated s then []
      else cloud_send (Heartbeat
             \<lparr> hb_bridgeId = bridgeId (cloud_config s), hb_timestamp = now,
               hb_bridgeVersion = bridgeVersion s,
               hb_protocolVersion = protocolVersion (cloud_config s),
               hb_haVersion = haVersion s, hb_lastEventAt = lastEventAt s,
               hb_entityCount = entityCount s, hb_reconnectCount = reconnectCount s,
               hb_uptime = (now - startTime s) div 1000 \<rparr>) s)"

definition cloud_scheduleReconnect :: "cloud_client \<Rightarrow> cloud_effect list \<times> cloud_client" where
  "cloud_scheduleReconnect s =
     (let s1 = s\<lparr>cloud_reconnectTimer := clearTimeout (cloud_reconnectTimer s)\<rparr>
      in if cloud_reconnectAttempts s1 \<ge> maxReconnectAttempts then ([], s1)
         else
           (let d = min (reconnectDelay * 2 ^ cloud_reconnectAttempts s1) 60000;
                s2 = s1\<lparr>cloud_reconnectAttempts := cloud_reconnectAttempts s1 + 1\<rparr>;
                s3 = s2\<lparr>reconnectCount := reconnectCount s2 + 1\<rparr>
            in ([CloudReconnectIn d], s3\<lparr>cloud_reconnectTimer := Some (Timer d True)\<rparr>)))"

definition updateStats :: "string \<Rightarrow> nat \<Rightarrow> time option \<Rightarrow> cloud_client \<Rightarrow> cloud_client" where
  "updateStats v n t s = s\<lparr>haVersion := v, entityCount := n, lastEventAt := t\<rparr>"

definition cloud_disconnect :: "cloud_client \<Rightarrow> cloud_effect list \<times> cloud_client" where
  "cloud_disconnect s =
     (let s1 = s\<lparr>cloud_shouldReconnect := False\<rparr>;
          s2 = (if cloud_reconnectTimer s1 \<noteq> None then s1\<lparr>cloud_reconnectTimer := None\<rparr> else s1);
          s3 = stopHeartbeat s2;
          (es, s4) = (if cloud_ws s3 \<noteq> None then ([CloudWsCloseCall], s3\<lparr>cloud_ws := None\<rparr>)
                      else ([], s3))
      in (es, s4\<lparr>cloud_authenticated := False\<rparr>))"

definition cloud_isConnected :: "cloud_client \<Rightarrow> bool" where
  "cloud_isConnected s = (cloud_ws s = Some OPEN \<and> cloud_authenticated s)"

definition cloud_handleMessage ::
  "time \<Rightarrow> cloud_message \<Rightarrow> cloud_client \<Rightarrow> cloud_effect list \<times> cloud_client" where
  "cloud_handleMessage now m s =
     (case m of
        AuthResult success tenant err \<Rightarrow> handleAuthResult success tenant err s
      | Command c \<Rightarrow> handleCommand now c s
      | RequestFullSync reason \<Rightarrow> ([CloudEmit (FullSyncRequested reason)], s)
      | RequestHeartbeat \<Rightarrow> (sendHeartbeat now s, s)
      | DisconnectRequest reason \<Rightarrow>
          (let s1 = s\<lparr>cloud_shouldReconnect := False\<rparr>
           in if reason = ''user_disconnected'' \<or> reason = ''user_reset''
              then (case clear (credentialStore s1) of
                      (Some exn, st) \<Rightarrow> ([], s1\<lparr>credentialStore := st\<rparr>)
                    | (None, st) \<Rightarrow> cloud_disconnect (s1\<lparr>credentialStore := st\<rparr>))
              else cloud_disconnect s1)
      | UnknownMessage t \<Rightarrow> ([], s))"

subsection \<open>Socket and timer callbacks\<close>

definition cloud_on_open :: "cloud_client \<Rightarrow> cloud_effect list \<times> cloud_client" where
  "cloud_on_open s =
     (let s0 = s\<lparr>cloud_ws := map_option (\<lambda>_. OPEN) (cloud_ws s)\<rparr>;
          s1 = s0\<lparr>cloud_reconnectAttempts := 0\<rparr>
      in (CloudEmit CloudConnected # cloud_sendAuth s1, s1))"

definition cloud_on_close :: "nat \<Rightarrow> string \<Rightarrow> cloud_client \<Rightarrow> cloud_effect list \<times> cloud_client" where
  "cloud_on_close code reason s =
     (let s0 = s\<lparr>cloud_ws := map_option (\<lambda>_. CLOSED) (cloud_ws s)\<rparr>;
          s1 = s0\<lparr>cloud_authenticated := False\<rparr>;
          s2 = stopHeartbeat s1
      in if cloud_shouldReconnect s2
         then (let (es, s3) = cloud_scheduleReconnect s2
               in (CloudEmit (CloudDisconnected code reason) # es, s3))
         else ([CloudEmit (CloudDisconnected code reason)], s2))"

definition cloud_on_error :: "string \<Rightarrow> cloud_client \<Rightarrow> cloud_effect list \<times> cloud_client" where
  "cloud_on_error err s = ([CloudEmit (CloudError err)], s)"

definition cloud_reconnectTimerFired :: "cloud_client \<Rightarrow> cloud_effect list \<times> cloud_client" where
  "cloud_reconnectTimerFired s =
     (case cloud_reconnectTimer s of
        None \<Rightarrow> ([], s)
      | Some t \<Rightarrow>
          if pending t
          then cloud_connect (s\<lparr>cloud_reconnectTimer := Some (Timer (delay t) False)\<rparr>)
          else ([], s))"

definition heartbeatTick :: "time \<Rightarrow> cloud_client \<Rightarrow> cloud_effect list \<times> cloud_client" where
  "heartbeatTick now s = (if heartbeatTimer s then (sendHeartbeat now s, s) else ([], s))"

subsection \<open>Runs of the client\<close>

datatype cloud_event =
    CloudWsOpen
  | CloudWsMessage cloud_message
  | CloudWsClose nat string
  | CloudWsError string
  | CloudReconnectTimerFired
  | HeartbeatTick
  | CallCloudConnect
  | CallCloudDisconnect

fun cloud_step :: "time \<Rightarrow> cloud_event \<Rightarrow> cloud_client \<Rightarrow> cloud_effect list \<times> cloud_client" where
  "cloud_step now CloudWsOpen s = cloud_on_open s"
| "cloud_step now (CloudWsMessage m) s = cloud_handleMessage now m s"
| "cloud_step now (CloudWsClose code reason) s = cloud_on_close code reason s"
| "cloud_step now (CloudWsError err) s = cloud_on_error err s"
| "cloud_step now CloudReconnectTimerFired s = cloud_reconnectTimerFired s"
| "cloud_step now HeartbeatTick s = heartbeatTick now s"
| "cloud_step now CallCloudConnect s = cloud_connect s"
| "cloud_step now CallCloudDisconnect s = cloud_disconnect s"

text \<open>A run is a list of events, each with the clock's value when it is handled.\<close>

fun cloud_run :: "(time \<times> cloud_event) list \<Rightarrow> cloud_client \<Rightarrow> cloud_effect list \<times> cloud_client" where
  "cloud_run [] s = ([], s)"
| "cloud_run ((now, e) # es) s =
     (fst (cloud_step now e s) @ fst (cloud_run es (snd (cloud_step now e s))),
      snd (cloud_run es (snd (cloud_step now e s))))"

text \<open>The effects that start a connection attempt: a reconnect timer or a new socket.\<close>

fun connection_attempts :: "cloud_effect list \<Rightarrow> cloud_effect list" where
  "connection_attempts [] = []"
| "connection_attempts (CloudReconnectIn d # es) = CloudReconnectIn d # connection_attempts es"
| "connection_attempts (CloudNewWebSocket u # es) = CloudNewWebSocket u # connection_attempts es"
| "connection_attempts (_ # es) = connection_attempts es"

subsection \<open>Scenarios of the cloud session\<close>

definition sample_credentials :: stored_credentials where
  "sample_credentials =
     \<lparr> cred_bridgeId = Some ''helm-bridge-abcd1234'', cred_bridgeCredential = Some ''bc_deadbeef'',
       cred_tenantId = Some ''42'', cred_pairedAt = None, cred_cloudUrl = None \<rparr>"

definition paired_disk :: file_system where
  "paired_disk = \<lparr> file_content = Some sample_credentials, dir_exists = True, read_only = False \<rparr>"

definition sample_uuid :: "nat \<Rightarrow> string" where
  "sample_uuid n = replicate (Suc n) CHR ''u''"

definition paired_cloud :: cloud_client where
  "paired_cloud =
     snd (cloud_run [(0, CallCloudConnect), (5, CloudWsOpen)]
       (new_cloud_client sample_config
          (new_credential_store ''/data/credentials.json'' paired_disk) 0 ''1.0.0'' sample_uuid
          ascii_toLowerCase))"

text \<open>
  The same client when the credential file sits on a file system that has since become
  read-only, and the cloud's answer to a credential that it has revoked.
\<close>

definition locked_cloud :: cloud_client where
  "locked_cloud =
     paired_cloud\<lparr>credentialStore :=
       (credentialStore paired_cloud)\<lparr>disk := paired_disk\<lparr>read_only := True\<rparr>\<rparr>\<rparr>"

definition auth_revoked :: cloud_message where
  "auth_revoked = AuthResult False None (Some ''Invalid or revoked credential'')"

section \<open>The bridge: HelmBridge (index.ts)\<close>

subsection \<open>State\<close>

text \<open>
  Who awaits a promise of \<open>sendCommand\<close>: \<open>handleCloudCommand\<close> for the command with
  the given \<open>cmdId\<close>, or another caller (startup, the web server, the full-sync collector),
  whose continuation writes nothing to the cloud socket that this model follows.
\<close>

datatype waiter = CommandWaiter string | OtherWaiter string

record bridge_state =
  st_haVersion :: string
  haConnected :: bool
  cloudConnected :: bool
  st_entityCount :: nat
  st_lastEventAt :: "time option"
  st_reconnectCount :: nat

text \<open>
  The bridge object: its two clients, the batcher's queue and timer (\<open>batchTimer\<close> is
  non-null exactly while the timer is pending), the rows \<open>recordStateChange\<close> has
  inserted, the web server's entity cache when the server exists, the counter of
  \<open>pollForPairing\<close>, and the clock that \<open>new Date()\<close> reads.
\<close>

record helm_bridge =
  wsClient :: "waiter ha_client"
  cloudClient :: cloud_client
  bstate :: bridge_state
  stateChangeQueue :: "ha_event list"
  batchTimer :: bool
  localDb :: "(string \<times> string \<times> json \<times> string option) list"
  webServer :: "(string \<rightharpoonup> string \<times> json) option"
  attempts :: nat
  clock :: time

definition batchIntervalMs :: nat where
  "batchIntervalMs = 500"

datatype bridge_output =
    HubDid "waiter hub_effect"
  | CloudDid cloud_effect
  | SetBatchTimer nat
  | SetPollTimer nat
  | Uncaught string

subsection \<open>State batcher\<close>

text \<open>\<open>attributes || {}\<close> and \<open>context?.id || null\<close>\<close>

definition attributes_or_empty :: "json option \<Rightarrow> json" where
  "attributes_or_empty a = (case a of None \<Rightarrow> ''{}'' | Some x \<Rightarrow> x)"

definition context_or_null :: "string option \<Rightarrow> string option" where
  "context_or_null c = (case c of None \<Rightarrow> None | Some x \<Rightarrow> if x = [] then None else Some x)"

definition handleStateChange :: "ha_event \<Rightarrow> helm_bridge \<Rightarrow> bridge_output list \<times> helm_bridge" where
  "handleStateChange ev b =
     (let b1 = b\<lparr>bstate := (bstate b)\<lparr>st_lastEventAt := Some (clock b)\<rparr>\<rparr>;
          b2 = b1\<lparr>stateChangeQueue := stateChangeQueue b1 @ [ev]\<rparr>;
          b3 = (case new_state ev of
                  None \<Rightarrow> b2
                | Some ns \<Rightarrow>
                    (let b' = b2\<lparr>localDb := localDb b2 @
                                 [(entity_id ev, hs_state ns, attributes_or_empty (hs_attributes ns),
                                   context_or_null (context_id ev))]\<rparr>
                     in case webServer b' of
                          None \<Rightarrow> b'
                        | Some cache \<Rightarrow>
                            b'\<lparr>webServer := Some (cache(entity_id ev \<mapsto>
                                  (hs_state ns, attributes_or_empty (hs_attributes ns))))\<rparr>))
      in if \<not> batchTimer b3 then ([SetBatchTimer batchIntervalMs], b3\<lparr>batchTimer := True\<rparr>)
         else ([], b3))"

text \<open>
  The element that \<open>batch.map\<close> builds for one queued event. Reading \<open>new_state!.state\<close>
  of an event whose \<open>new_state\<close> is null throws a TypeError: \<open>None\<close>.
\<close>

definition to_batch_event :: "time \<Rightarrow> ha_event \<Rightarrow> state_changed_event option" where
  "to_batch_event now ev =
     (case new_state ev of
        None \<Rightarrow> None
      | Some ns \<Rightarrow>
          Some \<lparr> entityId = entity_id ev, oldState = old_state ev, newState = ns, timestamp = now \<rparr>)"

definition flushStateChanges :: "helm_bridge \<Rightarrow> bridge_output list \<times> helm_bridge" where
  "flushStateChanges b =
     (if stateChangeQueue b = [] then ([], b\<lparr>batchTimer := False\<rparr>)
      else
        (let batch = stateChangeQueue b;
             b1 = b\<lparr>stateChangeQueue := []\<rparr>;
             b2 = b1\<lparr>batchTimer := False\<rparr>
         in if cloud_isConnected (cloudClient b2) then
              (case those (map (to_batch_event (clock b2)) batch) of
                 None \<Rightarrow> ([Uncaught ''TypeError: Cannot read properties of null''], b2)
               | Some events \<Rightarrow>
                   (let (es, c1) = sendStateBatch (clock b2) events (cloudClient b2);
                        c2 = updateStats (st_haVersion (bstate b2)) (st_entityCount (bstate b2))
                               (st_lastEventAt (bstate b2)) c1
                    in (map CloudDid es, b2\<lparr>cloudClient := c2\<rparr>)))
            else ([], b2)))"

subsection \<open>Command executor\<close>

text \<open>
  The code that runs when the promise awaited by \<open>handleCloudCommand\<close> settles: the rest
  of the \<open>try\<close> block, or the \<open>catch\<close> block.
\<close>

definition command_settled :: "string \<Rightarrow> outcome \<Rightarrow> helm_bridge \<Rightarrow> bridge_output list" where
  "command_settled c r b =
     (case r of
        Resolved v \<Rightarrow>
          map CloudDid (sendCommandResult (clock b) c Completed (Some v) None (cloudClient b))
      | Rejected msg \<Rightarrow>
          map CloudDid (sendCommandResult (clock b) c Failed None
                          (Some (''EXECUTION_FAILED'', msg)) (cloudClient b)))"

fun continuation :: "waiter \<times> outcome \<Rightarrow> helm_bridge \<Rightarrow> bridge_output list" where
  "continuation (CommandWaiter c, r) b = command_settled c r b"
| "continuation (OtherWaiter tag, r) b = []"

text \<open>The listeners that \<open>setupEventHandlers\<close> registers on the hub client.\<close>

fun hub_listener :: "waiter hub_effect \<Rightarrow> helm_bridge \<Rightarrow> bridge_output list \<times> helm_bridge" where
  "hub_listener (Emit Authenticated) b = ([], b\<lparr>bstate := (bstate b)\<lparr>haConnected := True\<rparr>\<rparr>)"
| "hub_listener (Emit (Disconnected code reason)) b =
     ([], b\<lparr>bstate := (bstate b)\<lparr>haConnected := False,
                                   st_reconnectCount := st_reconnectCount (bstate b) + 1\<rparr>\<rparr>)"
| "hub_listener (Emit (StateChanged ev)) b = handleStateChange ev b"
| "hub_listener _ b = ([], b)"

text \<open>
  What the bridge does with the effects of one call into the hub client: each effect
  happens, a listener runs at once when the effect is an emitted event, and the
  continuations of the promises settled run afterwards, when the call has returned.
\<close>

fun hub_listeners :: "waiter hub_effect list \<Rightarrow> helm_bridge \<Rightarrow> bridge_output list \<times> helm_bridge" where
  "hub_listeners [] b = ([], b)"
| "hub_listeners (e # es) b =
     (HubDid e # fst (hub_listener e b) @ fst (hub_listeners es (snd (hub_listener e b))),
      snd (hub_listeners es (snd (hub_listener e b))))"

definition after_hub_call ::
  "waiter hub_effect list \<times> waiter ha_client \<Rightarrow> helm_bridge \<Rightarrow> bridge_output list \<times> helm_bridge" where
  "after_hub_call r b =
     (let b1 = b\<lparr>wsClient := snd r\<rparr>;
          b2 = snd (hub_listeners (fst r) b1)
      in (fst (hub_listeners (fst r) b1) @ concat (map (\<lambda>x. continuation x b2) (settlements (fst r))),
          b2))"

text \<open>\<open>serviceData || {}\<close>: an absent (or otherwise falsy) member is \<open>None\<close>.\<close>

definition serviceData_or_empty :: "json option \<Rightarrow> json" where
  "serviceData_or_empty d = (case d of None \<Rightarrow> ''{}'' | Some x \<Rightarrow> x)"

text \<open>
  \<open>handleCloudCommand\<close> up to its \<open>await\<close>, and its \<open>catch\<close> block when the
  destructuring of a missing payload throws or the promise is rejected at once.
\<close>

definition handleCloudCommand :: "command_message \<Rightarrow> helm_bridge \<Rightarrow> bridge_output list \<times> helm_bridge" where
  "handleCloudCommand c b =
     (case cmd_payload c of
        None \<Rightarrow>
          (command_settled (cmdId c) (Rejected ''Cannot destructure property of undefined'') b, b)
      | Some p \<Rightarrow>
          after_hub_call
            (callService (CommandWaiter (cmdId c)) (p_domain p) (p_service p)
               (serviceData_or_empty (p_serviceData p)) (wsClient b)) b)"

text \<open>
  The listeners that \<open>setupCloudEventHandlers\<close> registers on the cloud client. The
  listener of \<open>request_full_sync\<close>, the full-sync collector, is not followed here.
\<close>

fun cloud_listener :: "cloud_effect \<Rightarrow> helm_bridge \<Rightarrow> bridge_output list \<times> helm_bridge" where
  "cloud_listener (CloudEmit (CloudAuthenticated t)) b =
     ([], b\<lparr>bstate := (bstate b)\<lparr>cloudConnected := True\<rparr>\<rparr>)"
| "cloud_listener (CloudEmit (CloudDisconnected code reason)) b =
     ([], b\<lparr>bstate := (bstate b)\<lparr>cloudConnected := False\<rparr>\<rparr>)"
| "cloud_listener (CloudEmit (CommandReceived c)) b = handleCloudCommand c b"
| "cloud_listener _ b = ([], b)"

fun cloud_listeners :: "cloud_effect list \<Rightarrow> helm_bridge \<Rightarrow> bridge_output list \<times> helm_bridge" where
  "cloud_listeners [] b = ([], b)"
| "cloud_listeners (e # es) b =
     (CloudDid e # fst (cloud_listener e b) @ fst (cloud_listeners es (snd (cloud_listener e b))),
      snd (cloud_listeners es (snd (cloud_listener e b))))"

definition after_cloud_call ::
  "cloud_effect list \<times> cloud_client \<Rightarrow> helm_bridge \<Rightarrow> bridge_output list \<times> helm_bridge" where
  "after_cloud_call r b = cloud_listeners (fst r) (b\<lparr>cloudClient := snd r\<rparr>)"

subsection \<open>Shutdown\<close>

fun is_uncaught :: "bridge_output \<Rightarrow> bool" where
  "is_uncaught (Uncaught msg) = True"
| "is_uncaught _ = False"

text \<open>An exception thrown by the final flush leaves \<open>stop()\<close> before the clients are disconnected.\<close>

definition stop :: "helm_bridge \<Rightarrow> bridge_output list \<times> helm_bridge" where
  "stop b =
     (let (o1, b1) = (if batchTimer b then flushStateChanges b else ([], b))
      in if list_ex is_uncaught o1 then (o1, b1)
         else
           (let (o2, b2) = after_cloud_call (cloud_disconnect (cloudClient b1)) b1;
                (o3, b3) = after_hub_call (disconnect (wsClient b2)) b2
            in (o1 @ o2 @ o3, b3)))"

subsection \<open>Runs of the bridge\<close>

text \<open>
  The events of a paired bridge: the callbacks of the two sockets and of the timers, an RPC
  issued by another component, the advance of the clock, and \<open>stop()\<close>.
\<close>

datatype bridge_event =
    Tick time
  | HubOpen
  | HubMessage ha_message
  | HubClose nat string
  | HubError string
  | HubReconnectTimer
  | HubCommandTimer nat
  | OtherRpc string string request_data
  | CloudOpen
  | CloudMessage cloud_message
  | CloudClose nat string
  | CloudError string
  | CloudReconnectTimer
  | CloudHeartbeatTimer
  | BatchTimerFired
  | Stop

fun bridge_step :: "bridge_event \<Rightarrow> helm_bridge \<Rightarrow> bridge_output list \<times> helm_bridge" where
  "bridge_step (Tick t) b = ([], b\<lparr>clock := t\<rparr>)"
| "bridge_step HubOpen b = after_hub_call (on_open (wsClient b)) b"
| "bridge_step (HubMessage m) b = after_hub_call (handleMessage m (wsClient b)) b"
| "bridge_step (HubClose code reason) b = after_hub_call (on_close code reason (wsClient b)) b"
| "bridge_step (HubError err) b = after_hub_call (on_error err (wsClient b)) b"
| "bridge_step HubReconnectTimer b = after_hub_call (reconnectTimerFired (wsClient b)) b"
| "bridge_step (HubCommandTimer i) b = after_hub_call (commandTimeout i (wsClient b)) b"
| "bridge_step (OtherRpc tag type data) b =
     after_hub_call (sendCommand (OtherWaiter tag) type data (wsClient b)) b"
| "bridge_step CloudOpen b = after_cloud_call (cloud_on_open (cloudClient b)) b"
| "bridge_step (CloudMessage m) b =
     after_cloud_call (cloud_handleMessage (clock b) m (cloudClient b)) b"
| "bridge_step (CloudClose code reason) b =
     after_cloud_call (cloud_on_close code reason (cloudClient b)) b"
| "bridge_step (CloudError err) b = after_cloud_call (cloud_on_error err (cloudClient b)) b"
| "bridge_step CloudReconnectTimer b =
     after_cloud_call (cloud_reconnectTimerFired (cloudClient b)) b"
| "bridge_step CloudHeartbeatTimer b = after_cloud_call (heartbeatTick (clock b) (cloudClient b)) b"
| "bridge_step BatchTimerFired b = (if batchTimer b then flushStateChanges b else ([], b))"
| "bridge_step Stop b = stop b"

fun bridge_run :: "bridge_event list \<Rightarrow> helm_bridge \<Rightarrow> bridge_output list \<times> helm_bridge" where
  "bridge_run [] b = ([], b)"
| "bridge_run (e # es) b =
     (fst (bridge_step e b) @ fst (bridge_run es (snd (bridge_step e b))),
      snd (bridge_run es (snd (bridge_step e b))))"

subsection \<open>Pairing poll\<close>

text \<open>The body of the status endpoint after \<open>response.json()\<close>.\<close>

record pairing_status =
  ps_status :: string
  ps_bridgeCredential :: "string option"
  ps_tenantId :: "string option"
  ps_bridgeId :: "string option"

text \<open>
  What \<open>fetch\<close> gave: the header, \<open>response.ok\<close>, the status code, and the parsed body
  (\<open>None\<close> when \<open>response.json()\<close> throws).
\<close>

record http_response =
  content_type :: "string option"
  ok :: bool
  status :: nat
  body :: "pairing_status option"

datatype fetch_result = FetchFailed string | Response http_response

text \<open>
  How one round of \<open>poll\<close> leaves the loop: the next round is scheduled, the loop has
  ended, or the round is suspended at \<open>await this.cloudClient.connect()\<close>.
\<close>

datatype poll_outcome = PollAgain | PollStopped | PollAwaitsConnect

definition pollInterval :: nat where
  "pollInterval = 5000"

definition maxAttempts :: nat where
  "maxAttempts = 120"

text \<open>\<open>if (attempts < maxAttempts) setTimeout(poll, pollInterval)\<close>\<close>

definition poll_retry :: "helm_bridge \<Rightarrow> bridge_output list \<times> helm_bridge \<times> poll_outcome" where
  "poll_retry b =
     (if attempts b < maxAttempts then ([SetPollTimer pollInterval], b, PollAgain)
      else ([], b, PollStopped))"

text \<open>
  \<open>await this.cloudClient.connect(); return\<close>: an unpaired client resolves at once and
  the round returns; otherwise the round waits for the promise of the new socket.
\<close>

definition poll_connect :: "helm_bridge \<Rightarrow> bridge_output list \<times> helm_bridge \<times> poll_outcome" where
  "poll_connect b =
     (let paired = isPaired (credentialStore (cloudClient b));
          r = after_cloud_call (cloud_connect (cloudClient b)) b
      in (fst r, snd r, if paired then PollAwaitsConnect else PollStopped))"

definition truthy :: "string option \<Rightarrow> bool" where
  "truthy x = (case x of None \<Rightarrow> False | Some t \<Rightarrow> t \<noteq> [])"

text \<open>The round from the answer of \<open>fetch\<close> on (the store was not paired when it began).\<close>

definition poll_on_response ::
  "fetch_result \<Rightarrow> helm_bridge \<Rightarrow> bridge_output list \<times> helm_bridge \<times> poll_outcome" where
  "poll_on_response r b =
     (case r of
        FetchFailed err \<Rightarrow> poll_retry b
      | Response resp \<Rightarrow>
          (if \<not> (case content_type resp of None \<Rightarrow> False
                   | Some t \<Rightarrow> str_includes t ''application/json'')
           then poll_retry b
           else if ok resp then
             (case body resp of
                None \<Rightarrow> poll_retry b
              | Some data \<Rightarrow>
                  if ps_status data = ''paired'' \<and> truthy (ps_bridgeCredential data) then
                    (case save \<lparr> cred_bridgeId = ps_bridgeId data,
                                 cred_bridgeCredential = ps_bridgeCredential data,
                                 cred_tenantId = ps_tenantId data,
                                 cred_pairedAt = None, cred_cloudUrl = None \<rparr>
                            (credentialStore (cloudClient b)) of
                       (Some exn, st) \<Rightarrow>
                         poll_retry (b\<lparr>cloudClient := (cloudClient b)\<lparr>credentialStore := st\<rparr>\<rparr>)
                     | (None, st) \<Rightarrow>
                         poll_connect (b\<lparr>cloudClient := (cloudClient b)\<lparr>credentialStore := st\<rparr>\<rparr>))
                  else if ps_status data = ''paired'' then
                    (if isPaired (credentialStore (cloudClient b)) then poll_connect b
                     else ([], b, PollStopped))
                  else if ps_status data = ''expired'' then ([], b, PollStopped)
                  else poll_retry b)
           else if status resp = 404 then
             (if isPaired (credentialStore (cloudClient b)) then poll_connect b else poll_retry b)
           else poll_retry b))"

text \<open>
  The start of a round: the counter, and the check of the local store. \<open>None\<close> means
  that the round goes on to \<open>fetch\<close> the status.
\<close>

definition poll_begin ::
  "helm_bridge \<Rightarrow> (bridge_output list \<times> helm_bridge \<times> poll_outcome) option \<times> helm_bridge" where
  "poll_begin b =
     (let b1 = b\<lparr>attempts := attempts b + 1\<rparr>
      in if isPaired (credentialStore (cloudClient b1)) then (Some (poll_connect b1), b1)
         else (None, b1))"

text \<open>The round resumed when the promise of \<open>connect()\<close> settles.\<close>

definition poll_on_connect ::
  "bool \<Rightarrow> helm_bridge \<Rightarrow> bridge_output list \<times> helm_bridge \<times> poll_outcome" where
  "poll_on_connect resolved b = (if resolved then ([], b, PollStopped) else poll_retry b)"

subsection \<open>Scenarios of the bridge\<close>

definition new_bridge :: "cloud_client \<Rightarrow> helm_bridge" where
  "new_bridge c =
     \<lparr> wsClient = new_ha_client (cloud_config c), cloudClient = c,
       bstate = \<lparr> st_haVersion = ''unknown'', haConnected = False, cloudConnected = False,
                  st_entityCount = 0, st_lastEventAt = None, st_reconnectCount = 0 \<rparr>,
       stateChangeQueue = [], batchTimer = False, localDb = [], webServer = None,
       attempts = 0, clock = 0 \<rparr>"

text \<open>The state-change events that a run of the bridge receives from the hub, in order.\<close>

fun state_change_of :: "bridge_event \<Rightarrow> ha_event list" where
  "state_change_of (HubMessage m) =
     (if msg_type m = ''event'' then
        (case msg_event m of
           None \<Rightarrow> []
         | Some ev \<Rightarrow> if event_type ev = ''state_changed'' then [ev] else [])
      else [])"
| "state_change_of _ = []"

definition state_changes :: "bridge_event list \<Rightarrow> ha_event list" where
  "state_changes evs = concat (map state_change_of evs)"

text \<open>The \<open>state_batch\<close> frames among the outputs, and what one of them carries.\<close>

definition batch_of :: "bridge_output \<Rightarrow> cloud_frame option" where
  "batch_of x =
     (case x of
        CloudDid (CloudSend (StateBatch i t es ov)) \<Rightarrow> Some (StateBatch i t es ov)
      | _ \<Rightarrow> None)"

definition state_batches :: "bridge_output list \<Rightarrow> cloud_frame list" where
  "state_batches os = List.map_filter batch_of os"

fun batch_id :: "cloud_frame \<Rightarrow> string" where
  "batch_id (StateBatch i t es ov) = i"
| "batch_id _ = []"

fun batch_events :: "cloud_frame \<Rightarrow> state_changed_event list" where
  "batch_events (StateBatch i t es ov) = es"
| "batch_events _ = []"

text \<open>Acknowledgements and results of the command \<open>c\<close> among the outputs.\<close>

definition ack_of :: "bridge_output \<Rightarrow> string option" where
  "ack_of x = (case x of CloudDid (CloudSend (CommandAck c s t)) \<Rightarrow> Some c | _ \<Rightarrow> None)"

definition result_of :: "bridge_output \<Rightarrow> string option" where
  "result_of x = (case x of CloudDid (CloudSend (CommandResult c s t r e)) \<Rightarrow> Some c | _ \<Rightarrow> None)"


definition is_result :: "string \<Rightarrow> bridge_output \<Rightarrow> bool" where
  "is_result c x = (result_of x = Some c)"





text \<open>
  An effect of the cloud client that neither acknowledges the command \<open>c\<close>, nor reports a
  result, nor hands the command \<open>c\<close> to the executor.
\<close>

definition quiet_effect :: "string \<Rightarrow> cloud_effect \<Rightarrow> bool" where
  "quiet_effect c e =
     (ack_of (CloudDid e) \<noteq> Some c \<and> result_of (CloudDid e) = None
      \<and> (case e of CloudEmit (CommandReceived m) \<Rightarrow> cmdId m \<noteq> c | _ \<Rightarrow> True))"

text \<open>The error codes of the failed \<open>command_result\<close> frames among the outputs.\<close>

definition failure_code :: "bridge_output \<Rightarrow> string option" where
  "failure_code x =
     (case x of
        CloudDid (CloudSend (CommandResult c Failed t r (Some (code, msg)))) \<Rightarrow> Some code
      | _ \<Rightarrow> None)"

definition failure_codes :: "bridge_output list \<Rightarrow> string list" where
  "failure_codes os = List.map_filter failure_code os"

definition hub_request :: "bridge_output \<Rightarrow> hub_frame option" where
  "hub_request x = (case x of HubDid (WsSend f) \<Rightarrow> Some f | _ \<Rightarrow> None)"

definition hub_requests :: "bridge_output list \<Rightarrow> hub_frame list" where
  "hub_requests os = List.map_filter hub_request os"

text \<open>A paired bridge with both sessions up, and inputs for it.\<close>

definition auth_success :: cloud_message where
  "auth_success = AuthResult True (Some ''42'') None"

definition online_bridge :: helm_bridge where
  "online_bridge =
     snd (bridge_run
       [HubOpen, HubMessage auth_ok_message, CloudOpen, CloudMessage auth_success]
       ((new_bridge paired_cloud)
          \<lparr>wsClient := (new_ha_client sample_config)\<lparr>ws := Some CONNECTING\<rparr>\<rparr>))"

definition kitchen_on :: ha_state where
  "kitchen_on =
     \<lparr> hs_state = ''on'', hs_attributes = Some ''{}'', hs_last_changed = ''2026-01-19T10:00:00Z'',
       hs_last_updated = ''2026-01-19T10:00:00Z'' \<rparr>"

definition state_changed_message :: "string \<Rightarrow> ha_message" where
  "state_changed_message e =
     \<lparr> msg_id = Some 1, msg_type = ''event'', msg_success = None, msg_result = [],
       msg_error_message = None,
       msg_event = Some \<lparr> event_type = ''state_changed'', entity_id = e, old_state = None,
                          new_state = Some kitchen_on, context_id = None \<rparr>,
       msg_message = None \<rparr>"

definition four_changes :: "bridge_event list" where
  "four_changes =
     [Tick 100, HubMessage (state_changed_message ''light.a''),
      HubMessage (state_changed_message ''light.b''), Tick 200,
      HubMessage (state_changed_message ''light.a''),
      HubMessage (state_changed_message ''light.c''), Tick 600]"

definition turn_on :: payload where
  "turn_on =
     \<lparr> p_domain = Some ''light'', p_service = Some ''turn_on'',
       p_serviceData = Some ''{\"entity_id\":\"light.kitchen\"}'' \<rparr>"

definition sample_command :: "string \<Rightarrow> command_message" where
  "sample_command t =
     \<lparr> cmdId = ''11111111-1111-1111-1111-111111111111'', issuedAt = ''2026-01-19T10:00:00Z'',
       commandType = t, cmd_payload = Some turn_on, requiresAck = True, ttlMs = None \<rparr>"


definition paired_response :: http_response where
  "paired_response =
     \<lparr> content_type = Some ''application/json; charset=utf-8'', ok = True, status = 200,
       body = Some \<lparr> ps_status = ''paired'', ps_bridgeCredential = Some ''bc_deadbeef'',
                     ps_tenantId = Some ''42'', ps_bridgeId = Some ''helm-bridge-abcd1234'' \<rparr> \<rparr>"

definition empty_disk :: file_system where
  "empty_disk = \<lparr> file_content = None, dir_exists = False, read_only = False \<rparr>"

definition unpaired_bridge :: helm_bridge where
  "unpaired_bridge =
     new_bridge (new_cloud_client sample_config
       (new_credential_store ''/data/credentials.json'' empty_disk) 0 ''1.0.0'' sample_uuid
       ascii_toLowerCase)"

text \<open>
  The same bridge when its data directory is on a read-only file system, and the cloud's
  answer when the pairing is complete and the credential it carries is the empty string.
\<close>

definition locked_bridge :: helm_bridge where
  "locked_bridge =
     new_bridge (new_cloud_client sample_config
       (new_credential_store ''/data/credentials.json'' (empty_disk\<lparr>read_only := True\<rparr>))
       0 ''1.0.0'' sample_uuid ascii_toLowerCase)"

definition empty_credential_response :: http_response where
  "empty_credential_response =
     \<lparr> content_type = Some ''application/json; charset=utf-8'', ok = True, status = 200,
       body = Some \<lparr> ps_status = ''paired'', ps_bridgeCredential = Some [],
                     ps_tenantId = Some ''42'', ps_bridgeId = Some ''helm-bridge-abcd1234'' \<rparr> \<rparr>"

text \<open>The state-change event that an effect of the hub client hands to the bridge's listener.\<close>

definition emitted_change :: "waiter hub_effect \<Rightarrow> ha_event list" where
  "emitted_change e = (case e of Emit (StateChanged ev) \<Rightarrow> [ev] | _ \<Rightarrow> [])"




section \<open>Properties of the hub session\<close>

lemma online_client_eq:
  "online_client =
     \<lparr> config = sample_config, ws = Some OPEN, messageId = 2, reconnectTimer = None,
       authenticated = True, eventSubscriptionId = Some 1, reconnectAttempts = 0,
       shouldReconnect = True, pendingResponses = Map.empty \<rparr>"
  by (simp add: online_client_def fresh_client_def new_ha_client_def connect_def on_open_def
      handleMessage_def subscribeToEvents_def auth_ok_message_def Let_def)

text \<open>
  C10. Calling \<open>sendCommand\<close> while the session is not authenticated fails at once with
  the error "Not authenticated": the only effect is the rejection of the caller's promise;
  the client object is unchanged, so no request id is consumed and no waiter is inserted,
  and no frame is written to the socket.
\<close>

theorem sendCommand_not_authenticated:
  "\<not> authenticated s \<Longrightarrow>
     sendCommand k type data s = ([Settle k (Rejected ''Not authenticated'')], s)
     \<and> messageId (snd (sendCommand k type data s)) = messageId s
     \<and> pendingResponses (snd (sendCommand k type data s)) = pendingResponses s
     \<and> frames_written (fst (sendCommand k type data s)) = []"
  by (simp add: sendCommand_def)

theorem sendCommand_not_authenticated_witness:
  "\<not> authenticated fresh_client
   \<and> sendCommand ''caller'' ''get_states'' NoData fresh_client
       = ([Settle ''caller'' (Rejected ''Not authenticated'')], fresh_client)
   \<and> messageId (snd (sendCommand ''caller'' ''get_states'' NoData fresh_client)) = 1"
proof -
  have h: "\<not> authenticated fresh_client"
    by (simp add: fresh_client_def new_ha_client_def)
  have m: "messageId fresh_client = 1"
    by (simp add: fresh_client_def new_ha_client_def)
  show ?thesis
    using h m sendCommand_not_authenticated [OF h, of "''caller''" "''get_states''" NoData]
    by simp
qed



lemma hub_run_append:
  "hub_run (xs @ ys) s =
     (fst (hub_run xs s) @ fst (hub_run ys (snd (hub_run xs s))),
      snd (hub_run ys (snd (hub_run xs s))))"
  by (induction xs arbitrary: s) simp_all

text \<open>The same equation in a form that evaluates each step once.\<close>

lemma hub_run_Cons_eval:
  "hub_run (e # es) s =
     (case hub_step e s of (o1, s1) \<Rightarrow> case hub_run es s1 of (o2, s2) \<Rightarrow> (o1 @ o2, s2))"
  by (simp add: case_prod_unfold)

lemma reconnect_delays_append:
  "reconnect_delays (xs @ ys) = reconnect_delays xs @ reconnect_delays ys"
  by (induction xs rule: reconnect_delays.induct) simp_all

lemma settlements_append:
  "settlements (xs @ ys) = settlements xs @ settlements ys"
  by (induction xs rule: settlements.induct) simp_all

lemma failed_attempt_step:
  assumes "shouldReconnect s"
  shows "reconnect_delays (fst (hub_run (failed_attempt code reason err) s))
           = (if reconnectAttempts s < 10 then [backoff (reconnectAttempts s)] else [])"
    and "shouldReconnect (snd (hub_run (failed_attempt code reason err) s))"
    and "reconnectAttempts (snd (hub_run (failed_attempt code reason err) s))
           = (if reconnectAttempts s < 10 then reconnectAttempts s + 1 else reconnectAttempts s)"
    and "new_sockets (fst (hub_run (failed_attempt code reason err) s))
           = (if reconnectAttempts s < 10 then 1 else 0)"
  using assms
  by (auto simp add: failed_attempt_def on_close_def scheduleReconnect_def reconnectTimerFired_def
      on_error_def connect_def maxReconnectAttempts_def reconnectDelay_def backoff_def Let_def
      clearTimeout_def split: option.splits)

lemma failed_attempts_delays:
  "shouldReconnect s \<Longrightarrow>
     reconnect_delays (fst (hub_run (concat (replicate n (failed_attempt code reason err))) s))
       = map backoff [reconnectAttempts s ..< min (reconnectAttempts s + n) 10]"
proof (induction n arbitrary: s)
  case 0
  then show ?case by simp
next
  case (Suc n)
  let ?fa = "failed_attempt code reason err"
  let ?s1 = "snd (hub_run ?fa s)"
  let ?a = "reconnectAttempts s"
  have sr: "shouldReconnect ?s1" using Suc.prems by (rule failed_attempt_step(2))
  have split: "reconnect_delays (fst (hub_run (concat (replicate (Suc n) ?fa)) s))
      = reconnect_delays (fst (hub_run ?fa s))
          @ reconnect_delays (fst (hub_run (concat (replicate n ?fa)) ?s1))"
    by (simp add: hub_run_append reconnect_delays_append)
  show ?case
  proof (cases "?a < 10")
    case True
    have a: "reconnectAttempts ?s1 = Suc ?a"
      using True failed_attempt_step(3) [OF Suc.prems, of code reason err] by simp
    have d1: "reconnect_delays (fst (hub_run ?fa s)) = [backoff ?a]"
      using True failed_attempt_step(1) [OF Suc.prems, of code reason err] by simp
    have d2: "reconnect_delays (fst (hub_run (concat (replicate n ?fa)) ?s1))
                = map backoff [Suc ?a ..< min (?a + Suc n) 10]"
      using Suc.IH [OF sr] a by simp
    have lt: "?a < min (?a + Suc n) 10"
      using True by simp
    have "map backoff [?a ..< min (?a + Suc n) 10]
            = backoff ?a # map backoff [Suc ?a ..< min (?a + Suc n) 10]"
      by (subst upt_conv_Cons [OF lt]) simp
    then show ?thesis
      using split d1 d2 by simp
  next
    case False
    have a: "reconnectAttempts ?s1 = ?a"
      using False failed_attempt_step(3) [OF Suc.prems, of code reason err] by simp
    have d1: "reconnect_delays (fst (hub_run ?fa s)) = []"
      using False failed_attempt_step(1) [OF Suc.prems, of code reason err] by simp
    have d2: "reconnect_delays (fst (hub_run (concat (replicate n ?fa)) ?s1)) = []"
      using Suc.IH [OF sr] a False by simp
    show ?thesis
      using split d1 d2 False by simp
  qed
qed

lemma backoff_table:
  "map backoff [0 ..< 10] = [1000, 2000, 4000, 8000, 16000, 30000, 30000, 30000, 30000, 30000]"
  by (simp add: backoff_def upt_rec)


lemma new_sockets_append:
  "new_sockets (xs @ ys) = new_sockets xs + new_sockets ys"
  by (induction xs rule: new_sockets.induct) simp_all

lemma failed_attempts_sockets:
  "shouldReconnect s \<Longrightarrow>
     new_sockets (fst (hub_run (concat (replicate n (failed_attempt code reason err))) s))
       = min (reconnectAttempts s + n) 10 - min (reconnectAttempts s) 10"
proof (induction n arbitrary: s)
  case 0
  then show ?case by simp
next
  case (Suc n)
  let ?fa = "failed_attempt code reason err"
  let ?s1 = "snd (hub_run ?fa s)"
  have sr: "shouldReconnect ?s1" using Suc.prems by (rule failed_attempt_step(2))
  have split: "new_sockets (fst (hub_run (concat (replicate (Suc n) ?fa)) s))
      = new_sockets (fst (hub_run ?fa s))
          + new_sockets (fst (hub_run (concat (replicate n ?fa)) ?s1))"
    by (simp add: hub_run_append new_sockets_append)
  show ?case
    using split Suc.IH [OF sr] failed_attempt_step(3,4) [OF Suc.prems, of code reason err]
    by (cases "reconnectAttempts s < 10") simp_all
qed

lemma opened_attempt_step:
  assumes "shouldReconnect s" and "reconnectAttempts s = 0"
  shows "reconnect_delays (fst (hub_run (opened_attempt code reason) s)) = [1000]"
    and "shouldReconnect (snd (hub_run (opened_attempt code reason) s))"
    and "reconnectAttempts (snd (hub_run (opened_attempt code reason) s)) = 0"
    and "new_sockets (fst (hub_run (opened_attempt code reason) s)) = 1"
  using assms
  by (auto simp add: opened_attempt_def on_close_def scheduleReconnect_def reconnectTimerFired_def
      on_open_def connect_def maxReconnectAttempts_def reconnectDelay_def Let_def
      clearTimeout_def split: option.splits)

lemma opened_attempts:
  "shouldReconnect s \<Longrightarrow> reconnectAttempts s = 0 \<Longrightarrow>
     reconnect_delays (fst (hub_run (concat (replicate n (opened_attempt code reason))) s))
       = replicate n 1000
     \<and> new_sockets (fst (hub_run (concat (replicate n (opened_attempt code reason))) s)) = n"
proof (induction n arbitrary: s)
  case 0
  then show ?case by simp
next
  case (Suc n)
  let ?oa = "opened_attempt code reason"
  let ?s1 = "snd (hub_run ?oa s)"
  have sr: "shouldReconnect ?s1" and a: "reconnectAttempts ?s1 = 0"
    using Suc.prems opened_attempt_step(2,3) [of s code reason] by simp_all
  show ?case
    using Suc.IH [OF sr a] opened_attempt_step(1,4) [OF Suc.prems, of code reason]
    by (simp add: hub_run_append reconnect_delays_append new_sockets_append)
qed

lemma open_resets_attempts:
  "reconnect_delays (fst (hub_step WsOpen s)) = [] \<and> new_sockets (fst (hub_step WsOpen s)) = 0
   \<and> reconnectAttempts (snd (hub_step WsOpen s)) = 0
   \<and> shouldReconnect (snd (hub_step WsOpen s)) = shouldReconnect s"
  by (simp add: on_open_def Let_def)

text \<open>
  C7 (as amended). Once a hub socket has opened, which resets the attempt counter to 0, and
  reconnection is enabled (\<open>shouldReconnect\<close> set), \<open>n\<close> consecutive reconnect
  attempts of which none gets as far as opening its socket (the socket closes, the reconnect
  timer fires, the new socket reports an error) schedule the delays
  \<open>min (1000 * 2 ^ i) 30000\<close> for \<open>i = 0, 1, ...\<close>, that is the first \<open>n\<close> of
  1000, 2000, 4000, 8000, 16000, 30000, 30000, 30000, 30000, 30000; at most ten delays are
  scheduled and at most ten sockets are opened, however many more times the socket closes.
\<close>

theorem hub_reconnect_backoff:
  assumes "shouldReconnect s"
  shows "reconnect_delays
           (fst (hub_run (WsOpen # concat (replicate n (failed_attempt code reason err))) s))
           = map (\<lambda>i. min (1000 * 2 ^ i) 30000) [0 ..< min n 10]
     \<and> reconnect_delays
           (fst (hub_run (WsOpen # concat (replicate n (failed_attempt code reason err))) s))
           = take n [1000, 2000, 4000, 8000, 16000, 30000, 30000, 30000, 30000, 30000]
     \<and> new_sockets
           (fst (hub_run (WsOpen # concat (replicate n (failed_attempt code reason err))) s))
           = min n 10"
proof -
  let ?s0 = "snd (hub_step WsOpen s)"
  let ?run = "hub_run (concat (replicate n (failed_attempt code reason err))) ?s0"
  have sr: "shouldReconnect ?s0" and a: "reconnectAttempts ?s0 = 0"
    using assms open_resets_attempts [of s] by simp_all
  have whole: "reconnect_delays
        (fst (hub_run (WsOpen # concat (replicate n (failed_attempt code reason err))) s))
      = reconnect_delays (fst ?run)"
    "new_sockets
        (fst (hub_run (WsOpen # concat (replicate n (failed_attempt code reason err))) s))
      = new_sockets (fst ?run)"
    using open_resets_attempts [of s]
    by (simp_all add: reconnect_delays_append new_sockets_append)
  have d: "reconnect_delays (fst ?run) = map backoff [0 ..< min n 10]"
    using failed_attempts_delays [OF sr, of n code reason err] a by simp
  have b: "backoff = (\<lambda>i. min (1000 * 2 ^ i) 30000)"
    by (rule ext) (simp add: backoff_def)
  have "map backoff [0 ..< min n 10] = take n (map backoff [0 ..< 10])"
    by (cases "n \<le> 10") (simp_all add: take_map min_def)
  then have t: "reconnect_delays (fst ?run)
      = take n [1000, 2000, 4000, 8000, 16000, 30000, 30000, 30000, 30000, 30000]"
    using d backoff_table by simp
  have c: "new_sockets (fst ?run) = min n 10"
    using failed_attempts_sockets [OF sr, of n code reason err] a by simp
  show ?thesis
    unfolding whole using d b t c by simp
qed

theorem hub_reconnect_backoff_witness:
  "shouldReconnect fresh_client
   \<and> reconnect_delays (fst (hub_run
        (WsOpen # concat (replicate 12 (failed_attempt 1006 [] ''ECONNREFUSED''))) fresh_client))
       = [1000, 2000, 4000, 8000, 16000, 30000, 30000, 30000, 30000, 30000]
   \<and> new_sockets (fst (hub_run
        (WsOpen # concat (replicate 12 (failed_attempt 1006 [] ''ECONNREFUSED''))) fresh_client))
       = 10"
proof -
  have h: "shouldReconnect fresh_client"
    by (simp add: fresh_client_def new_ha_client_def)
  show ?thesis
    using h hub_reconnect_backoff [OF h, of 12 1006 "[]" "''ECONNREFUSED''", THEN conjunct2]
    by simp
qed

text \<open>
  C7 as stated fails: the attempt counter is reset when a socket opens, not when the session
  is authenticated. Twelve attempts in a row whose socket opens and closes again (a hub that
  accepts the connection and drops it, or refuses the token) are all scheduled after 1000 ms:
  the delay does not double, and more than ten connects are scheduled.
\<close>

theorem hub_reconnect_backoff_counterexample:
  "reconnect_delays (fst (hub_run (concat (replicate 12 (opened_attempt 1006 []))) online_client))
     = [1000, 1000, 1000, 1000, 1000, 1000, 1000, 1000, 1000, 1000, 1000, 1000]
   \<and> new_sockets (fst (hub_run (concat (replicate 12 (opened_attempt 1006 []))) online_client))
     = 12"
proof -
  have h1: "shouldReconnect online_client" and h2: "reconnectAttempts online_client = 0"
    by (simp_all add: online_client_eq)
  have "replicate 12 (1000 :: nat)
      = [1000, 1000, 1000, 1000, 1000, 1000, 1000, 1000, 1000, 1000, 1000, 1000]"
    by (simp add: eval_nat_numeral)
  then show ?thesis
    using opened_attempts [OF h1 h2, of 12 1006 "[]"] by simp
qed

lemma step_keeps_waiter:
  assumes "pendingResponses s i = Some k" and "i < messageId s" and "leaves_waiter i e"
  shows "pendingResponses (snd (hub_step e s)) i = Some k \<and> i < messageId (snd (hub_step e s))"
proof (cases e)
  case (WsMessage m)
  then show ?thesis
    using assms
    by (auto simp add: leaves_waiter_def handleMessage_def sendAuth_def subscribeToEvents_def
        handleEvent_def handleResult_def Let_def split: option.splits)
next
  case (WsClose code reason)
  then show ?thesis
    using assms
    by (auto simp add: on_close_def scheduleReconnect_def Let_def)
next
  case ReconnectTimerFired
  then show ?thesis
    using assms by (auto simp add: reconnectTimerFired_def connect_def split: option.splits)
next
  case (CommandTimerFired j)
  then show ?thesis
    using assms by (auto simp add: leaves_waiter_def commandTimeout_def split: option.splits)
next
  case (CallSendCommand k' type data)
  then show ?thesis
    using assms by (auto simp add: sendCommand_def Let_def)
qed (use assms in \<open>auto simp add: on_open_def on_error_def connect_def leaves_waiter_def\<close>)

lemma run_keeps_waiter:
  "pendingResponses s i = Some k \<Longrightarrow> i < messageId s \<Longrightarrow> list_all (leaves_waiter i) evs \<Longrightarrow>
     pendingResponses (snd (hub_run evs s)) i = Some k \<and> i < messageId (snd (hub_run evs s))"
proof (induction evs arbitrary: s)
  case Nil
  then show ?case by simp
next
  case (Cons e evs)
  from Cons.prems have "leaves_waiter i e" and rest: "list_all (leaves_waiter i) evs"
    by simp_all
  with Cons.prems step_keeps_waiter [of s i k e]
  have "pendingResponses (snd (hub_step e s)) i = Some k" and "i < messageId (snd (hub_step e s))"
    by simp_all
  then show ?case
    using Cons.IH [OF _ _ rest] by simp
qed

lemma step_keeps_absent:
  assumes "pendingResponses s i = None" and "i < messageId s"
  shows "pendingResponses (snd (hub_step e s)) i = None \<and> i < messageId (snd (hub_step e s))"
proof (cases e)
  case (WsMessage m)
  then show ?thesis
    using assms
    by (auto simp add: handleMessage_def sendAuth_def subscribeToEvents_def
        handleEvent_def handleResult_def Let_def split: option.splits)
next
  case (WsClose code reason)
  then show ?thesis
    using assms
    by (auto simp add: on_close_def scheduleReconnect_def Let_def)
next
  case ReconnectTimerFired
  then show ?thesis
    using assms by (auto simp add: reconnectTimerFired_def connect_def split: option.splits)
next
  case (CommandTimerFired j)
  then show ?thesis
    using assms by (auto simp add: commandTimeout_def split: option.splits)
next
  case (CallSendCommand k' type data)
  then show ?thesis
    using assms by (auto simp add: sendCommand_def Let_def)
next
  case CallDisconnect
  then show ?thesis
    using assms by (auto simp add: disconnect_def Let_def)
qed (use assms in \<open>auto simp add: on_open_def on_error_def connect_def\<close>)

lemma run_keeps_absent:
  "pendingResponses s i = None \<Longrightarrow> i < messageId s \<Longrightarrow>
     pendingResponses (snd (hub_run evs s)) i = None \<and> i < messageId (snd (hub_run evs s))"
proof (induction evs arbitrary: s)
  case Nil
  then show ?case by simp
next
  case (Cons e evs)
  with step_keeps_absent [of s i e]
  have "pendingResponses (snd (hub_step e s)) i = None" and "i < messageId (snd (hub_step e s))"
    by simp_all
  then show ?case
    using Cons.IH by simp
qed

lemma late_result_dropped:
  "pendingResponses s i = None \<Longrightarrow> msg_type m = ''result'' \<Longrightarrow> msg_id m = Some i \<Longrightarrow>
     handleMessage m s = ([], s)"
  by (simp add: handleMessage_def handleResult_def)

text \<open>
  C3 (as amended). Every hub RPC that \<open>sendCommand\<close> issues on an authenticated session
  starts a timer of 30000 ms for its request id and puts its waiter into the table. When the
  timer fires and the waiter is still in the table, which is so whenever no result frame
  with that id has arrived and \<open>disconnect()\<close> has not been called in the meantime, the
  waiter is removed and the call fails with the error "Command timeout". Whatever happens
  afterwards, a result frame with that id is dropped: no effect, no change of the client.
\<close>

theorem sendCommand_deadline:
  assumes auth: "authenticated s"
    and quiet: "list_all (leaves_waiter (messageId s)) evs"
    and late: "msg_type m = ''result''" "msg_id m = Some (messageId s)"
  shows "SetTimeout (messageId s) 30000 \<in> set (fst (sendCommand k type data s))
     \<and> pendingResponses (snd (sendCommand k type data s)) (messageId s) = Some k
     \<and> commandTimeout (messageId s) (snd (hub_run evs (snd (sendCommand k type data s))))
         = ([Settle k (Rejected ''Command timeout'')],
            (snd (hub_run evs (snd (sendCommand k type data s))))
              \<lparr>pendingResponses :=
                 (pendingResponses (snd (hub_run evs (snd (sendCommand k type data s)))))
                   (messageId s := None)\<rparr>)
     \<and> handleMessage m
           (snd (hub_run later
              (snd (commandTimeout (messageId s)
                 (snd (hub_run evs (snd (sendCommand k type data s))))))))
         = ([], snd (hub_run later
              (snd (commandTimeout (messageId s)
                 (snd (hub_run evs (snd (sendCommand k type data s))))))))"
proof -
  let ?i = "messageId s"
  let ?s0 = "snd (sendCommand k type data s)"
  let ?s1 = "snd (hub_run evs ?s0)"
  let ?s2 = "snd (commandTimeout ?i ?s1)"
  have t: "SetTimeout ?i 30000 \<in> set (fst (sendCommand k type data s))"
    using auth by (simp add: sendCommand_def Let_def)
  have p0: "pendingResponses ?s0 ?i = Some k" and m0: "?i < messageId ?s0"
    using auth by (simp_all add: sendCommand_def Let_def)
  have p1: "pendingResponses ?s1 ?i = Some k" and m1: "?i < messageId ?s1"
    using run_keeps_waiter [OF p0 m0 quiet] by simp_all
  have c: "commandTimeout ?i ?s1
      = ([Settle k (Rejected ''Command timeout'')],
         ?s1\<lparr>pendingResponses := (pendingResponses ?s1)(?i := None)\<rparr>)"
    using p1 by (simp add: commandTimeout_def)
  have p2: "pendingResponses ?s2 ?i = None" and m2: "?i < messageId ?s2"
    using m1 by (simp_all add: c)
  have "pendingResponses (snd (hub_run later ?s2)) ?i = None"
    using run_keeps_absent [OF p2 m2] by simp
  then have d: "handleMessage m (snd (hub_run later ?s2)) = ([], snd (hub_run later ?s2))"
    using late by (rule late_result_dropped)
  show ?thesis
    using t p0 c d by simp
qed


theorem sendCommand_deadline_witness:
  "authenticated online_client
   \<and> list_all (leaves_waiter (messageId online_client)) [WsClose 1006 []]
   \<and> msg_type late_result = ''result'' \<and> msg_id late_result = Some (messageId online_client)
   \<and> fst (commandTimeout 2
        (snd (hub_run [WsClose 1006 []]
           (snd (sendCommand ''caller'' ''get_states'' NoData online_client)))))
       = [Settle ''caller'' (Rejected ''Command timeout'')]
   \<and> fst (handleMessage late_result
        (snd (hub_run [CallConnect, WsOpen, WsMessage auth_ok_message]
           (snd (commandTimeout 2
              (snd (hub_run [WsClose 1006 []]
                 (snd (sendCommand ''caller'' ''get_states'' NoData online_client)))))))))
       = []"
proof -
  have i: "messageId online_client = 2"
    by (simp add: online_client_eq)
  have h1: "authenticated online_client"
    by (simp add: online_client_eq)
  have h2: "list_all (leaves_waiter (messageId online_client)) [WsClose 1006 []]"
    by (simp add: leaves_waiter_def)
  have h3: "msg_type late_result = ''result''"
    by (simp add: late_result_def)
  have h4: "msg_id late_result = Some (messageId online_client)"
    by (simp add: late_result_def i)
  show ?thesis
    using h1 h2 h3 h4
      sendCommand_deadline [OF h1 h2 h3 h4, of "''caller''" "''get_states''" NoData
        "[CallConnect, WsOpen, WsMessage auth_ok_message]"]
    by (simp add: online_client_eq leaves_waiter_def late_result_def auth_ok_message_def
        sendCommand_def send_def on_close_def scheduleReconnect_def clearTimeout_def
        maxReconnectAttempts_def reconnectDelay_def commandTimeout_def connect_def on_open_def
        handleMessage_def handleResult_def subscribeToEvents_def Let_def)
qed

text \<open>
  C3 as stated fails twice. When \<open>disconnect()\<close> is called between the request and its
  deadline, the table is emptied, the timer finds no waiter and the call is never failed;
  and the message of the timeout error is "Command timeout", with a capital C.
\<close>

theorem sendCommand_deadline_counterexample:
  "settlements (fst (hub_run
      [CallSendCommand ''caller'' ''get_states'' NoData, CallDisconnect, CommandTimerFired 2]
      online_client)) = []
   \<and> settlements (fst (hub_run
      [CallSendCommand ''caller'' ''get_states'' NoData, CommandTimerFired 2] online_client))
       \<noteq> [(''caller'', Rejected ''command timeout'')]"
  by (simp add: online_client_eq sendCommand_def send_def disconnect_def commandTimeout_def
      Let_def)

text \<open>
  C2 (as amended). A close of the hub socket fails no waiter and leaves the waiters table as
  it is. A waiter that \<open>sendCommand\<close> put into the table on an authenticated session
  before the close is still in the table after it, and when its timer fires it is removed
  and its call fails with the error "Command timeout", provided that between the request and
  the timer no result frame with its id arrives and \<open>disconnect()\<close> is not called.
\<close>

theorem close_settles_no_waiter:
  "settlements (fst (on_close code reason t)) = []
   \<and> pendingResponses (snd (on_close code reason t)) = pendingResponses t
   \<and> (authenticated s \<and> list_all (leaves_waiter (messageId s)) evs
        \<and> list_all (leaves_waiter (messageId s)) later \<longrightarrow>
       (let s1 = snd (hub_run evs (snd (sendCommand k type data s)));
            s2 = snd (on_close code reason s1);
            s3 = snd (hub_run later s2)
        in pendingResponses s2 (messageId s) = Some k
           \<and> commandTimeout (messageId s) s3
                 = ([Settle k (Rejected ''Command timeout'')],
                    s3\<lparr>pendingResponses := (pendingResponses s3)(messageId s := None)\<rparr>)))"
proof -
  have close: "settlements (fst (on_close code reason t)) = []
      \<and> pendingResponses (snd (on_close code reason t)) = pendingResponses t" for t :: "'a ha_client"
    by (simp add: on_close_def scheduleReconnect_def Let_def)
  have issued: "pendingResponses (snd (hub_run later (snd (on_close code reason
        (snd (hub_run evs (snd (sendCommand k type data s)))))))) (messageId s) = Some k
      \<and> pendingResponses (snd (on_close code reason
        (snd (hub_run evs (snd (sendCommand k type data s)))))) (messageId s) = Some k"
    if auth: "authenticated s" and before: "list_all (leaves_waiter (messageId s)) evs"
      and after: "list_all (leaves_waiter (messageId s)) later"
  proof -
    let ?i = "messageId s"
    let ?s0 = "snd (sendCommand k type data s)"
    have all: "list_all (leaves_waiter ?i) (evs @ WsClose code reason # later)"
      and upto: "list_all (leaves_waiter ?i) (evs @ [WsClose code reason])"
      using before after by (simp_all add: leaves_waiter_def)
    have p0: "pendingResponses ?s0 ?i = Some k" and m0: "?i < messageId ?s0"
      using auth by (simp_all add: sendCommand_def Let_def)
    show ?thesis
      using run_keeps_waiter [OF p0 m0 all] run_keeps_waiter [OF p0 m0 upto]
      by (simp add: hub_run_append)
  qed
  show ?thesis
    using close [of t] issued by (simp add: Let_def commandTimeout_def)
qed

theorem close_settles_no_waiter_witness:
  "authenticated online_client
   \<and> list_all (leaves_waiter (messageId online_client)) [WsError ''ECONNRESET'']
   \<and> list_all (leaves_waiter (messageId online_client)) [ReconnectTimerFired, WsOpen]
   \<and> settlements (fst (on_close 1006 [] online_client)) = []
   \<and> pendingResponses (snd (on_close 1006 []
        (snd (hub_run [WsError ''ECONNRESET'']
           (snd (sendCommand ''caller'' ''get_states'' NoData online_client)))))) 2
       = Some ''caller''
   \<and> fst (commandTimeout 2
        (snd (hub_run [ReconnectTimerFired, WsOpen]
           (snd (on_close 1006 []
              (snd (hub_run [WsError ''ECONNRESET'']
                 (snd (sendCommand ''caller'' ''get_states'' NoData online_client)))))))))
       = [Settle ''caller'' (Rejected ''Command timeout'')]"
proof -
  have i: "messageId online_client = 2"
    by (simp add: online_client_eq)
  have h1: "authenticated online_client"
    by (simp add: online_client_eq)
  have h2: "list_all (leaves_waiter (messageId online_client)) [WsError ''ECONNRESET'']"
    by (simp add: leaves_waiter_def)
  have h3: "list_all (leaves_waiter (messageId online_client)) [ReconnectTimerFired, WsOpen]"
    by (simp add: leaves_waiter_def)
  show ?thesis
    using h1 h2 h3
      close_settles_no_waiter [where t = online_client and s = online_client
        and evs = "[WsError ''ECONNRESET'']" and later = "[ReconnectTimerFired, WsOpen]"
        and code = 1006 and reason = "[]" and k = "''caller''" and type = "''get_states''"
        and data = NoData]
    by (simp add: i Let_def leaves_waiter_def)
qed

text \<open>
  C2 as stated fails: with a waiter outstanding, neither the close of the socket nor
  \<open>disconnect()\<close> settles any promise. After the close the waiter is still in the
  table; \<open>disconnect()\<close> empties the table and leaves the promise pending.
\<close>

theorem close_fails_waiters_counterexample:
  "settlements (fst (hub_run
      [CallSendCommand ''caller'' ''get_states'' NoData, WsClose 1006 []] online_client)) = []
   \<and> pendingResponses (snd (hub_run
      [CallSendCommand ''caller'' ''get_states'' NoData, WsClose 1006 []] online_client)) 2
       = Some ''caller''
   \<and> settlements (fst (hub_run
      [CallSendCommand ''caller'' ''get_states'' NoData, CallDisconnect] online_client)) = []"
  by (simp add: online_client_eq sendCommand_def send_def on_close_def scheduleReconnect_def
      clearTimeout_def maxReconnectAttempts_def reconnectDelay_def disconnect_def Let_def)

text \<open>
  C5, the code at the failing input. A running client loses its socket and reconnects; the
  hub now answers \<open>auth_invalid\<close> and closes. The client emits \<open>auth_failed\<close> and
  rejects the connect promise, but it neither closes the session nor clears
  \<open>shouldReconnect\<close>: the close schedules the next attempt after 1000 ms (the counter was
  reset when the socket opened), and that attempt sends the same token again.
\<close>

theorem auth_invalid_reconnects_with_same_token:
  "fst (hub_run
     [WsClose 1006 [], ReconnectTimerFired, WsOpen, WsMessage auth_required_message,
      WsMessage auth_invalid_message, WsClose 1000 [],
      ReconnectTimerFired, WsOpen, WsMessage auth_required_message] online_client)
   = [Emit (Disconnected 1006 []), ReconnectIn 1000,
      NewWebSocket ''ws://supervisor/core/websocket'', WsSend (Auth ''token''),
      Emit (AuthFailed (Some ''Invalid access token or password'')),
      ConnectReject ''HA auth failed: Invalid access token or password'',
      Emit (Disconnected 1000 []), ReconnectIn 1000,
      NewWebSocket ''ws://supervisor/core/websocket'', WsSend (Auth ''token'')]
   \<and> shouldReconnect (snd (hub_run
     [WsClose 1006 [], ReconnectTimerFired, WsOpen, WsMessage auth_required_message,
      WsMessage auth_invalid_message] online_client))
   \<and> ws (snd (hub_run
     [WsClose 1006 [], ReconnectTimerFired, WsOpen, WsMessage auth_required_message,
      WsMessage auth_invalid_message] online_client)) = Some OPEN"
  by (simp add: hub_run_Cons_eval online_client_eq sample_config_def auth_required_message_def
      auth_invalid_message_def on_close_def scheduleReconnect_def clearTimeout_def
      maxReconnectAttempts_def reconnectDelay_def reconnectTimerFired_def connect_def
      getWebSocketUrl_def on_open_def handleMessage_def sendAuth_def send_def
      show_undefined_def Let_def del: hub_run.simps(2))

section \<open>Properties of the credential store and the cloud session\<close>

lemma starts_with_iff: "starts_with sub s \<longleftrightarrow> (\<exists>suf. s = sub @ suf)"
  by (induction sub s rule: starts_with.induct) auto

lemma str_includes_iff: "str_includes s sub \<longleftrightarrow> (\<exists>pre suf. s = pre @ sub @ suf)"
proof (induction s)
  case Nil
  then show ?case by auto
next
  case (Cons c cs)
  show ?case
  proof
    assume "str_includes (c # cs) sub"
    then consider "starts_with sub (c # cs)" | "str_includes cs sub" by auto
    then show "\<exists>pre suf. c # cs = pre @ sub @ suf"
    proof cases
      case 1
      then obtain suf where "c # cs = sub @ suf" by (auto simp: starts_with_iff)
      then have "c # cs = [] @ sub @ suf" by simp
      then show ?thesis by blast
    next
      case 2
      then obtain pre suf where "cs = pre @ sub @ suf" using Cons.IH by auto
      then have "c # cs = (c # pre) @ sub @ suf" by simp
      then show ?thesis by blast
    qed
  next
    assume "\<exists>pre suf. c # cs = pre @ sub @ suf"
    then obtain pre suf where eq: "c # cs = pre @ sub @ suf" by auto
    show "str_includes (c # cs) sub"
    proof (cases pre)
      case Nil
      then have "starts_with sub (c # cs)" using eq by (auto simp: starts_with_iff)
      then show ?thesis by simp
    next
      case (Cons p ps)
      then have "cs = ps @ sub @ suf" using eq by simp
      then have "str_includes cs sub" using Cons.IH by blast
      then show ?thesis by simp
    qed
  qed
qed

lemma clear_keeps_unpaired: "\<not> isPaired st \<Longrightarrow> \<not> isPaired (snd (clear st))"
  by (simp add: clear_def isPaired_def)

lemma cloud_step_stays_down:
  assumes "\<not> cloud_shouldReconnect s" and "\<not> isPaired (credentialStore s)"
  shows "connection_attempts (fst (cloud_step now e s)) = []
     \<and> \<not> cloud_shouldReconnect (snd (cloud_step now e s))
     \<and> \<not> isPaired (credentialStore (snd (cloud_step now e s)))"
proof (cases e)
  case CloudWsOpen
  then show ?thesis
    using assms
    by (simp add: cloud_on_open_def cloud_sendAuth_def cloud_send_def Let_def split: option.splits)
next
  case (CloudWsMessage m)
  show ?thesis
  proof (cases m)
    case (AuthResult success tenant err)
    then show ?thesis
      using assms CloudWsMessage clear_keeps_unpaired [of "credentialStore s"]
      by (cases "clear (credentialStore s)")
         (auto simp add: cloud_handleMessage_def handleAuthResult_def startHeartbeat_def Let_def
          split: option.splits)
  next
    case (Command c)
    then show ?thesis
      using assms CloudWsMessage
      by (simp add: cloud_handleMessage_def handleCommand_def sendCommandAck_def cloud_send_def)
  next
    case (RequestFullSync r)
    then show ?thesis
      using assms CloudWsMessage by (simp add: cloud_handleMessage_def)
  next
    case RequestHeartbeat
    then show ?thesis
      using assms CloudWsMessage
      by (simp add: cloud_handleMessage_def sendHeartbeat_def cloud_send_def)
  next
    case (DisconnectRequest reason)
    then show ?thesis
      using assms CloudWsMessage clear_keeps_unpaired [of "credentialStore s"]
      by (cases "clear (credentialStore s)")
         (auto simp add: cloud_handleMessage_def cloud_disconnect_def stopHeartbeat_def Let_def
          split: option.splits)
  next
    case (UnknownMessage t)
    then show ?thesis
      using assms CloudWsMessage by (simp add: cloud_handleMessage_def)
  qed
next
  case (CloudWsClose code reason)
  then show ?thesis
    using assms by (simp add: cloud_on_close_def stopHeartbeat_def Let_def)
next
  case (CloudWsError err)
  then show ?thesis
    using assms by (simp add: cloud_on_error_def)
next
  case CloudReconnectTimerFired
  then show ?thesis
    using assms by (simp add: cloud_reconnectTimerFired_def cloud_connect_def split: option.splits)
next
  case HeartbeatTick
  then show ?thesis
    using assms by (simp add: heartbeatTick_def sendHeartbeat_def cloud_send_def)
next
  case CallCloudConnect
  then show ?thesis
    using assms by (simp add: cloud_connect_def)
next
  case CallCloudDisconnect
  then show ?thesis
    using assms by (simp add: cloud_disconnect_def stopHeartbeat_def Let_def)
qed

lemma connection_attempts_append:
  "connection_attempts (xs @ ys) = connection_attempts xs @ connection_attempts ys"
  by (induction xs rule: connection_attempts.induct) simp_all

lemma cloud_run_stays_down:
  "\<not> cloud_shouldReconnect s \<Longrightarrow> \<not> isPaired (credentialStore s) \<Longrightarrow>
     connection_attempts (fst (cloud_run evs s)) = []"
proof (induction evs arbitrary: s)
  case Nil
  then show ?case by simp
next
  case (Cons a evs)
  obtain now e where a: "a = (now, e)" by (cases a)
  from cloud_step_stays_down [OF Cons.prems, of now e] Cons.IH [of "snd (cloud_step now e s)"]
  show ?case by (simp add: a connection_attempts_append)
qed

lemma paired_cloud_eq:
  "paired_cloud =
     \<lparr> cloud_config = sample_config,
       credentialStore = \<lparr> filePath = ''/data/credentials.json'',
                           credentials = Some sample_credentials, disk = paired_disk \<rparr>,
       cloud_ws = Some OPEN, cloud_authenticated = False,
       tenantId = None, cloud_reconnectTimer = None, heartbeatTimer = False,
       cloud_reconnectAttempts = 0, cloud_shouldReconnect = True, lastEventAt = None,
       haVersion = ''unknown'', entityCount = 0, startTime = 0, reconnectCount = 0,
       bridgeVersion = ''1.0.0'', randomUUID = sample_uuid, uuids_drawn = 0,
       toLowerCase = ascii_toLowerCase \<rparr>"
  by (simp add: paired_cloud_def new_cloud_client_def new_credential_store_def paired_disk_def
      cloud_connect_def isPaired_def sample_credentials_def cloud_on_open_def Let_def)

lemma sample_error_matches:
  "str_includes (ascii_toLowerCase ''Invalid or revoked credential'') ''revoked''"
  by code_simp

text \<open>
  C4 (as amended). When the cloud answers \<open>auth_result\<close> with \<open>success = false\<close> and the
  error text (the server's, or "Unknown error" when the server sends none or an empty one),
  lowered by \<open>toLowerCase\<close>, contains "revoked" or "invalid", and the credential file is
  absent or can be removed, then the credential store is cleared (the credential file is gone
  and the in-memory copy is null, so \<open>isPaired()\<close> is false) and \<open>shouldReconnect\<close>
  is false; whatever the cloud session receives afterwards, no reconnect is scheduled and no
  socket is opened. This holds for every function that the runtime may supply as
  \<open>toLowerCase\<close>.
\<close>

theorem revoked_credential_clears_store:
  assumes match: "str_includes (toLowerCase s (auth_error_text err)) ''revoked''
                  \<or> str_includes (toLowerCase s (auth_error_text err)) ''invalid''"
    and fs: "file_content (disk (credentialStore s)) = None \<or> \<not> read_only (disk (credentialStore s))"
  shows "credentials (credentialStore (snd (handleAuthResult False tenant err s))) = None
     \<and> file_content (disk (credentialStore (snd (handleAuthResult False tenant err s)))) = None
     \<and> \<not> isPaired (credentialStore (snd (handleAuthResult False tenant err s)))
     \<and> \<not> cloud_shouldReconnect (snd (handleAuthResult False tenant err s))
     \<and> connection_attempts (fst (cloud_run evs (snd (handleAuthResult False tenant err s)))) = []"
proof -
  let ?s' = "snd (handleAuthResult False tenant err s)"
  have c: "fst (clear (credentialStore s)) = None"
    using fs by (auto simp add: clear_def)
  have s': "?s' = s\<lparr>credentialStore := snd (clear (credentialStore s)), cloud_shouldReconnect := False\<rparr>"
    using match c
    by (cases "clear (credentialStore s)") (auto simp add: handleAuthResult_def Let_def)
  have 1: "credentials (credentialStore ?s') = None"
    and 2: "file_content (disk (credentialStore ?s')) = None"
    using fs by (auto simp add: s' clear_def)
  have 3: "\<not> isPaired (credentialStore ?s')"
    using 1 by (simp add: isPaired_def)
  have 4: "\<not> cloud_shouldReconnect ?s'"
    by (simp add: s')
  show ?thesis
    using 1 2 3 4 cloud_run_stays_down [OF 4 3] by simp
qed

theorem revoked_credential_clears_store_witness:
  "str_includes (toLowerCase paired_cloud
      (auth_error_text (Some ''Invalid or revoked credential''))) ''revoked''
   \<and> \<not> read_only (disk (credentialStore paired_cloud))
   \<and> isPaired (credentialStore paired_cloud)
   \<and> credentials (credentialStore
        (snd (handleAuthResult False None (Some ''Invalid or revoked credential'') paired_cloud)))
       = None
   \<and> file_content (disk (credentialStore
        (snd (handleAuthResult False None (Some ''Invalid or revoked credential'') paired_cloud))))
       = None
   \<and> \<not> cloud_shouldReconnect
        (snd (handleAuthResult False None (Some ''Invalid or revoked credential'') paired_cloud))
   \<and> connection_attempts (fst (cloud_run
        [(10, CloudWsClose 4002 ''Authentication failed''), (20, CallCloudConnect)]
        (snd (handleAuthResult False None (Some ''Invalid or revoked credential'') paired_cloud))))
       = []"
proof -
  have m: "str_includes (toLowerCase paired_cloud
      (auth_error_text (Some ''Invalid or revoked credential''))) ''revoked''"
    using sample_error_matches by (simp add: paired_cloud_eq auth_error_text_def)
  have w: "\<not> read_only (disk (credentialStore paired_cloud))"
    by (simp add: paired_cloud_eq paired_disk_def)
  have p: "isPaired (credentialStore paired_cloud)"
    by (simp add: paired_cloud_eq isPaired_def sample_credentials_def)
  show ?thesis
    using m w p
      revoked_credential_clears_store [where s = paired_cloud and tenant = None
        and err = "Some ''Invalid or revoked credential''"
        and evs = "[(10, CloudWsClose 4002 ''Authentication failed''), (20, CallCloudConnect)]"]
    by simp
qed

text \<open>
  C4 as stated fails when the credential file cannot be removed: \<open>clear()\<close> rethrows the
  exception of \<open>unlinkSync\<close>, which leaves \<open>handleAuthResult\<close> before
  \<open>shouldReconnect\<close> is cleared. On a read-only file system the revoked credential stays
  in the store and in the file, \<open>shouldReconnect\<close> stays true, and the close that follows
  schedules a reconnect, which opens a socket for the same credential.
\<close>

theorem revoked_credential_counterexample:
  "cloud_step 10 (CloudWsMessage auth_revoked) locked_cloud = ([], locked_cloud)
   \<and> credentials (credentialStore locked_cloud) = Some sample_credentials
   \<and> file_content (disk (credentialStore locked_cloud)) = Some sample_credentials
   \<and> isPaired (credentialStore locked_cloud)
   \<and> cloud_shouldReconnect locked_cloud
   \<and> connection_attempts (fst (cloud_run
        [(10, CloudWsMessage auth_revoked), (20, CloudWsClose 4002 ''Authentication failed''),
         (1020, CloudReconnectTimerFired)] locked_cloud))
       = [CloudReconnectIn 1000, CloudNewWebSocket ''wss://helm.replit.app/ws/bridge'']"
proof -
  have m: "str_includes (ascii_toLowerCase ''Invalid or revoked credential'') ''revoked''"
    by (rule sample_error_matches)
  have st: "cloud_step 10 (CloudWsMessage auth_revoked) locked_cloud = ([], locked_cloud)"
    using m
    by (simp add: locked_cloud_def paired_cloud_eq auth_revoked_def cloud_handleMessage_def
        handleAuthResult_def auth_error_text_def clear_def paired_disk_def)
  show ?thesis
    unfolding cloud_run.simps st fst_conv snd_conv
    by (simp add: locked_cloud_def paired_cloud_eq paired_disk_def sample_credentials_def
        isPaired_def cloud_on_close_def stopHeartbeat_def cloud_scheduleReconnect_def
        clearTimeout_def maxReconnectAttempts_def reconnectDelay_def
        cloud_reconnectTimerFired_def cloud_connect_def cloud_getWebSocketUrl_def
        sample_config_def Let_def)
qed

section \<open>Properties of the pairing poll\<close>

lemma poll_connect_paired:
  assumes "isPaired (credentialStore (cloudClient b))"
  shows "poll_connect b =
     ([CloudDid (CloudNewWebSocket (cloud_getWebSocketUrl (cloudClient b)))],
      b\<lparr>cloudClient := (cloudClient b)\<lparr>cloud_ws := Some CONNECTING\<rparr>\<rparr>,
      PollAwaitsConnect)"
  using assms
  by (simp add: poll_connect_def after_cloud_call_def cloud_connect_def Let_def)

text \<open>
  C9 (as amended). When the status poll is answered by a JSON response with
  \<open>response.ok\<close> whose body has status "paired" and a non-empty \<open>bridgeCredential\<close>
  together with \<open>tenantId\<close> and \<open>bridgeId\<close>, and the file system accepts the write,
  the credential store afterwards holds exactly those three members (in memory and in the
  file, with no \<open>pairedAt\<close> or \<open>cloudUrl\<close>), the cloud connect is initiated (the only
  effect of the round is the new socket to the cloud), and the round schedules no further
  poll: it waits for \<open>connect()\<close>, and the polling loop ends when that promise resolves.
\<close>

theorem paired_poll_saves_and_connects:
  assumes ct: "content_type resp = Some t" "str_includes t ''application/json''"
    and ok: "ok resp"
    and body: "body resp = Some \<lparr> ps_status = ''paired'', ps_bridgeCredential = Some c,
                                  ps_tenantId = Some tenant, ps_bridgeId = Some bid \<rparr>"
    and c: "c \<noteq> []"
    and fs: "\<not> read_only (disk (credentialStore (cloudClient b)))"
  shows "(case poll_on_response (Response resp) b of
          (out, b', outcome) \<Rightarrow>
            credentials (credentialStore (cloudClient b'))
              = Some \<lparr> cred_bridgeId = Some bid, cred_bridgeCredential = Some c,
                       cred_tenantId = Some tenant, cred_pairedAt = None, cred_cloudUrl = None \<rparr>
          \<and> file_content (disk (credentialStore (cloudClient b')))
              = Some \<lparr> cred_bridgeId = Some bid, cred_bridgeCredential = Some c,
                       cred_tenantId = Some tenant, cred_pairedAt = None, cred_cloudUrl = None \<rparr>
          \<and> out = [CloudDid (CloudNewWebSocket (cloud_getWebSocketUrl (cloudClient b)))]
          \<and> cloud_ws (cloudClient b') = Some CONNECTING
          \<and> outcome = PollAwaitsConnect
          \<and> poll_on_connect True b' = ([], b', PollStopped))"
proof -
  let ?cred = "\<lparr> cred_bridgeId = Some bid, cred_bridgeCredential = Some c,
                 cred_tenantId = Some tenant, cred_pairedAt = None, cred_cloudUrl = None \<rparr>"
  let ?st = "(credentialStore (cloudClient b))
               \<lparr>disk := (disk (credentialStore (cloudClient b)))
                           \<lparr>dir_exists := True, file_content := Some ?cred\<rparr>,
                credentials := Some ?cred\<rparr>"
  let ?b1 = "b\<lparr>cloudClient := (cloudClient b)\<lparr>credentialStore := ?st\<rparr>\<rparr>"
  have sv: "save ?cred (credentialStore (cloudClient b)) = (None, ?st)"
    using fs by (simp add: save_def)
  have p: "isPaired (credentialStore (cloudClient ?b1))"
    using c by (simp add: isPaired_def)
  have r: "poll_on_response (Response resp) b = poll_connect ?b1"
    using ct ok body c sv by (simp add: poll_on_response_def truthy_def)
  show ?thesis
    unfolding r poll_connect_paired [OF p]
    by (simp add: poll_on_connect_def cloud_getWebSocketUrl_def)
qed

theorem paired_poll_saves_and_connects_witness:
  "content_type paired_response = Some ''application/json; charset=utf-8''
   \<and> str_includes ''application/json; charset=utf-8'' ''application/json''
   \<and> ok paired_response
   \<and> \<not> isPaired (credentialStore (cloudClient unpaired_bridge))
   \<and> credentials (credentialStore (cloudClient
        (fst (snd (poll_on_response (Response paired_response) unpaired_bridge)))))
       = Some sample_credentials
   \<and> fst (poll_on_response (Response paired_response) unpaired_bridge)
       = [CloudDid (CloudNewWebSocket ''wss://helm.replit.app/ws/bridge'')]
   \<and> snd (snd (poll_on_response (Response paired_response) unpaired_bridge)) = PollAwaitsConnect
   \<and> fst (poll_on_connect True
        (fst (snd (poll_on_response (Response paired_response) unpaired_bridge)))) = []
   \<and> snd (snd (poll_on_connect True
        (fst (snd (poll_on_response (Response paired_response) unpaired_bridge))))) = PollStopped"
proof -
  have h1: "content_type paired_response = Some ''application/json; charset=utf-8''"
    by (simp add: paired_response_def)
  have h2: "str_includes ''application/json; charset=utf-8'' ''application/json''"
    by simp
  have h3: "ok paired_response"
    by (simp add: paired_response_def)
  have h4: "body paired_response
      = Some \<lparr> ps_status = ''paired'', ps_bridgeCredential = Some ''bc_deadbeef'',
               ps_tenantId = Some ''42'', ps_bridgeId = Some ''helm-bridge-abcd1234'' \<rparr>"
    by (simp add: paired_response_def)
  have h5: "''bc_deadbeef'' \<noteq> []"
    by simp
  have h6: "\<not> read_only (disk (credentialStore (cloudClient unpaired_bridge)))"
    by (simp add: unpaired_bridge_def new_bridge_def new_cloud_client_def
        new_credential_store_def empty_disk_def)
  have h7: "\<not> isPaired (credentialStore (cloudClient unpaired_bridge))"
    by (simp add: unpaired_bridge_def new_bridge_def new_cloud_client_def
        new_credential_store_def empty_disk_def isPaired_def)
  have u: "cloud_getWebSocketUrl (cloudClient unpaired_bridge) = ''wss://helm.replit.app/ws/bridge''"
    by (simp add: unpaired_bridge_def new_bridge_def new_cloud_client_def
        cloud_getWebSocketUrl_def sample_config_def)
  show ?thesis
    using h1 h2 h3 h7 u paired_poll_saves_and_connects [OF h1 h2 h3 h4 h5 h6]
    by (auto simp add: sample_credentials_def split: prod.splits)
qed

text \<open>
  C9 as stated fails in three ways. The round does not leave the loop when it has called
  \<open>connect()\<close>: it awaits the promise inside its \<open>try\<close> block, and when the promise
  is rejected (the cloud cannot be reached, or refuses the credential) the \<open>catch\<close>
  block schedules the next poll. When the file system refuses the write, \<open>save\<close> throws:
  nothing is stored, no connect is made and the next poll is scheduled. And when the
  \<open>bridgeCredential\<close> that comes with status "paired" is the empty string, nothing is
  stored and no connect is made, though the loop ends.
\<close>

theorem paired_poll_counterexample:
  "snd (snd (poll_on_response (Response paired_response) unpaired_bridge)) = PollAwaitsConnect
   \<and> fst (poll_on_connect False
        (fst (snd (poll_on_response (Response paired_response) unpaired_bridge))))
       = [SetPollTimer 5000]
   \<and> snd (snd (poll_on_connect False
        (fst (snd (poll_on_response (Response paired_response) unpaired_bridge))))) = PollAgain
   \<and> poll_on_response (Response paired_response) locked_bridge
       = ([SetPollTimer 5000], locked_bridge, PollAgain)
   \<and> credentials (credentialStore (cloudClient locked_bridge)) = None
   \<and> poll_on_response (Response empty_credential_response) unpaired_bridge
       = ([], unpaired_bridge, PollStopped)
   \<and> credentials (credentialStore (cloudClient unpaired_bridge)) = None"
  by (simp add: poll_on_response_def poll_on_connect_def poll_retry_def poll_connect_def
      paired_response_def empty_credential_response_def unpaired_bridge_def locked_bridge_def
      new_bridge_def new_cloud_client_def new_credential_store_def empty_disk_def truthy_def
      save_def isPaired_def after_cloud_call_def cloud_connect_def pollInterval_def
      maxAttempts_def Let_def)

section \<open>Properties of the state batcher\<close>

lemma handleStateChange_frame:
  "stateChangeQueue (snd (handleStateChange ev b)) = stateChangeQueue b @ [ev]
   \<and> cloudClient (snd (handleStateChange ev b)) = cloudClient b
   \<and> wsClient (snd (handleStateChange ev b)) = wsClient b
   \<and> clock (snd (handleStateChange ev b)) = clock b"
  by (simp add: handleStateChange_def Let_def split: option.splits)

lemma hub_listener_frame:
  "stateChangeQueue (snd (hub_listener e b)) = stateChangeQueue b @ emitted_change e
   \<and> cloudClient (snd (hub_listener e b)) = cloudClient b
   \<and> wsClient (snd (hub_listener e b)) = wsClient b
   \<and> clock (snd (hub_listener e b)) = clock b"
  by (cases "(e, b)" rule: hub_listener.cases)
     (simp_all add: emitted_change_def handleStateChange_frame)

lemma hub_listeners_frame:
  "stateChangeQueue (snd (hub_listeners es b)) = stateChangeQueue b @ concat (map emitted_change es)
   \<and> cloudClient (snd (hub_listeners es b)) = cloudClient b
   \<and> wsClient (snd (hub_listeners es b)) = wsClient b
   \<and> clock (snd (hub_listeners es b)) = clock b"
  by (induction es arbitrary: b) (simp_all add: hub_listener_frame)

lemma after_hub_call_frame:
  "stateChangeQueue (snd (after_hub_call r b)) = stateChangeQueue b @ concat (map emitted_change (fst r))
   \<and> cloudClient (snd (after_hub_call r b)) = cloudClient b
   \<and> wsClient (snd (after_hub_call r b)) = snd r
   \<and> clock (snd (after_hub_call r b)) = clock b"
  by (simp add: after_hub_call_def Let_def hub_listeners_frame)

lemma sendCommand_emits_nothing:
  "concat (map emitted_change (fst (sendCommand k type data s))) = []"
  by (simp add: sendCommand_def send_def emitted_change_def Let_def)

lemma handleCloudCommand_frame:
  "stateChangeQueue (snd (handleCloudCommand c b)) = stateChangeQueue b
   \<and> cloudClient (snd (handleCloudCommand c b)) = cloudClient b
   \<and> clock (snd (handleCloudCommand c b)) = clock b"
  by (simp add: handleCloudCommand_def callService_def after_hub_call_frame
      sendCommand_emits_nothing split: option.splits)

lemma cloud_listener_frame:
  "stateChangeQueue (snd (cloud_listener e b)) = stateChangeQueue b
   \<and> cloudClient (snd (cloud_listener e b)) = cloudClient b
   \<and> clock (snd (cloud_listener e b)) = clock b"
  by (cases "(e, b)" rule: cloud_listener.cases) (simp_all add: handleCloudCommand_frame)

lemma cloud_listeners_frame:
  "stateChangeQueue (snd (cloud_listeners es b)) = stateChangeQueue b
   \<and> cloudClient (snd (cloud_listeners es b)) = cloudClient b
   \<and> clock (snd (cloud_listeners es b)) = clock b"
  by (induction es arbitrary: b) (simp_all add: cloud_listener_frame)

lemma after_cloud_call_frame:
  "stateChangeQueue (snd (after_cloud_call r b)) = stateChangeQueue b
   \<and> cloudClient (snd (after_cloud_call r b)) = snd r
   \<and> clock (snd (after_cloud_call r b)) = clock b"
  by (simp add: after_cloud_call_def cloud_listeners_frame)

lemma hub_emits:
  "concat (map emitted_change (fst (on_open s))) = []"
  "concat (map emitted_change (fst (handleMessage m s))) = state_change_of (HubMessage m)"
  "concat (map emitted_change (fst (on_close code reason s))) = []"
  "concat (map emitted_change (fst (on_error err s))) = []"
  "concat (map emitted_change (fst (reconnectTimerFired s))) = []"
  "concat (map emitted_change (fst (commandTimeout i s))) = []"
  by (auto simp add: on_open_def handleMessage_def sendAuth_def send_def subscribeToEvents_def
      handleEvent_def handleResult_def on_close_def scheduleReconnect_def on_error_def
      reconnectTimerFired_def connect_def commandTimeout_def emitted_change_def Let_def
      split: option.splits)

lemma bridge_step_queue:
  assumes "e \<noteq> BatchTimerFired" and "e \<noteq> Stop"
  shows "stateChangeQueue (snd (bridge_step e b)) = stateChangeQueue b @ state_change_of e"
  using assms
  by (cases e)
     (simp_all add: after_hub_call_frame after_cloud_call_frame hub_emits
      sendCommand_emits_nothing del: state_change_of.simps(1))

lemma bridge_run_queue:
  "BatchTimerFired \<notin> set evs \<Longrightarrow> Stop \<notin> set evs \<Longrightarrow>
     stateChangeQueue (snd (bridge_run evs b)) = stateChangeQueue b @ state_changes evs"
proof (induction evs arbitrary: b)
  case Nil
  then show ?case by (simp add: state_changes_def)
next
  case (Cons e evs)
  then have "e \<noteq> BatchTimerFired" and "e \<noteq> Stop" by auto
  then have "stateChangeQueue (snd (bridge_step e b)) = stateChangeQueue b @ state_change_of e"
    by (rule bridge_step_queue)
  then show ?case
    using Cons by (simp add: state_changes_def del: state_change_of.simps(1))
qed


lemma those_to_batch:
  "those (map (to_batch_event t) q) = Some events \<Longrightarrow>
     map entityId events = map entity_id q \<and> map timestamp events = map (\<lambda>_. t) q
     \<and> map (\<lambda>e. Some (newState e)) events = map new_state q
     \<and> map oldState events = map old_state q"
proof (induction q arbitrary: events)
  case Nil
  then show ?case by simp
next
  case (Cons ev q)
  then obtain x xs where x: "to_batch_event t ev = Some x"
    and xs: "those (map (to_batch_event t) q) = Some xs" and ev: "events = x # xs"
    by (auto split: option.splits)
  from x have "entityId x = entity_id ev \<and> timestamp x = t \<and> Some (newState x) = new_state ev
      \<and> oldState x = old_state ev"
    by (auto simp add: to_batch_event_def split: option.splits)
  then show ?case
    using Cons.IH [OF xs] ev by simp
qed

lemma flush_empty:
  "stateChangeQueue b = [] \<Longrightarrow> fst (flushStateChanges b) = []"
  by (simp add: flushStateChanges_def)

lemma flush_offline:
  "\<not> cloud_isConnected (cloudClient b) \<Longrightarrow> fst (flushStateChanges b) = []"
  by (simp add: flushStateChanges_def Let_def)

lemma flush_throws:
  "stateChangeQueue b \<noteq> [] \<Longrightarrow> cloud_isConnected (cloudClient b) \<Longrightarrow>
   those (map (to_batch_event (clock b)) (stateChangeQueue b)) = None \<Longrightarrow>
     fst (flushStateChanges b) = [Uncaught ''TypeError: Cannot read properties of null'']"
  by (simp add: flushStateChanges_def Let_def)

lemma flush_sends:
  assumes "stateChangeQueue b \<noteq> []" and "cloud_isConnected (cloudClient b)"
    and "those (map (to_batch_event (clock b)) (stateChangeQueue b)) = Some events"
  shows "fst (flushStateChanges b)
           = [CloudDid (CloudSend (StateBatch
                (randomUUID (cloudClient b) (uuids_drawn (cloudClient b))) (clock b) events False))]
     \<and> uuids_drawn (cloudClient (snd (flushStateChanges b))) = Suc (uuids_drawn (cloudClient b))"
proof -
  have "events \<noteq> []"
    using assms(1,3) by (cases "stateChangeQueue b") (auto split: option.splits)
  then show ?thesis
    using assms
    by (simp add: flushStateChanges_def sendStateBatch_def cloud_send_def cloud_isConnected_def
        updateStats_def Let_def)
qed

lemma flush_empties_queue:
  "stateChangeQueue (snd (flushStateChanges b)) = [] \<and> \<not> batchTimer (snd (flushStateChanges b))"
  by (simp add: flushStateChanges_def Let_def split: option.splits prod.splits)

text \<open>
  C8. Let the bridge receive any events after a flush (the queue is empty), none of them a
  flush. The next flush emits at most one \<open>state_batch\<close> frame. A frame that is emitted
  lists exactly the state-change events received from the hub since, in the order of their
  arrival, and its batch id is the next draw of \<open>crypto.randomUUID()\<close>, which the flush
  consumes. If no state-change event was received the flush emits nothing at all. The
  flush leaves the queue empty.
\<close>

theorem batch_preserves_order:
  assumes "stateChangeQueue b = []" and "BatchTimerFired \<notin> set evs" and "Stop \<notin> set evs"
  shows "(let b1 = snd (bridge_run evs b);
             out = fst (flushStateChanges b1);
             b2 = snd (flushStateChanges b1)
          in length (state_batches out) \<le> 1
           \<and> (\<forall>f \<in> set (state_batches out).
                 map entityId (batch_events f) = map entity_id (state_changes evs)
               \<and> map (\<lambda>e. Some (newState e)) (batch_events f) = map new_state (state_changes evs)
               \<and> batch_id f = randomUUID (cloudClient b1) (uuids_drawn (cloudClient b1))
               \<and> uuids_drawn (cloudClient b2) = Suc (uuids_drawn (cloudClient b1)))
           \<and> (state_changes evs = [] \<longrightarrow> out = [])
           \<and> stateChangeQueue b2 = [])"
proof -
  let ?b1 = "snd (bridge_run evs b)"
  have q: "stateChangeQueue ?b1 = state_changes evs"
    using bridge_run_queue [OF assms(2,3), of b] assms(1) by simp
  consider (empty) "state_changes evs = []"
    | (offline) "\<not> cloud_isConnected (cloudClient ?b1)"
    | (throws) "state_changes evs \<noteq> []" "cloud_isConnected (cloudClient ?b1)"
        "those (map (to_batch_event (clock ?b1)) (state_changes evs)) = None"
    | (sends) events where "state_changes evs \<noteq> []" "cloud_isConnected (cloudClient ?b1)"
        "those (map (to_batch_event (clock ?b1)) (state_changes evs)) = Some events"
    by (cases "those (map (to_batch_event (clock ?b1)) (state_changes evs))") auto
  then show ?thesis
  proof cases
    case empty
    then have "fst (flushStateChanges ?b1) = []"
      using q by (simp add: flush_empty)
    then show ?thesis
      by (simp add: Let_def state_batches_def flush_empties_queue)
  next
    case offline
    then have "fst (flushStateChanges ?b1) = []"
      by (rule flush_offline)
    then show ?thesis
      by (simp add: Let_def state_batches_def flush_empties_queue)
  next
    case throws
    then have "fst (flushStateChanges ?b1) = [Uncaught ''TypeError: Cannot read properties of null'']"
      using q flush_throws [of ?b1] by simp
    then show ?thesis
      using throws(1) by (simp add: Let_def state_batches_def batch_of_def flush_empties_queue)
  next
    case sends
    then have "fst (flushStateChanges ?b1)
           = [CloudDid (CloudSend (StateBatch
                (randomUUID (cloudClient ?b1) (uuids_drawn (cloudClient ?b1))) (clock ?b1) events False))]
     \<and> uuids_drawn (cloudClient (snd (flushStateChanges ?b1))) = Suc (uuids_drawn (cloudClient ?b1))"
      using q flush_sends [of ?b1 events] by simp
    then show ?thesis
      using sends(1) those_to_batch [OF sends(3)]
      by (simp add: Let_def state_batches_def batch_of_def flush_empties_queue)
  qed
qed

lemma bridge_run_Cons_eval:
  "bridge_run (e # es) b =
     (case bridge_step e b of (o1, b1) \<Rightarrow> case bridge_run es b1 of (o2, b2) \<Rightarrow> (o1 @ o2, b2))"
  by (simp add: case_prod_unfold)

lemma hub_listeners_Cons_eval:
  "hub_listeners (e # es) b =
     (case hub_listener e b of (o1, b1) \<Rightarrow>
        case hub_listeners es b1 of (o2, b2) \<Rightarrow> (HubDid e # o1 @ o2, b2))"
  by (simp add: case_prod_unfold)

lemma cloud_listeners_Cons_eval:
  "cloud_listeners (e # es) b =
     (case cloud_listener e b of (o1, b1) \<Rightarrow>
        case cloud_listeners es b1 of (o2, b2) \<Rightarrow> (CloudDid e # o1 @ o2, b2))"
  by (simp add: case_prod_unfold)

lemma after_hub_call_eval:
  "after_hub_call (es, h) b =
     (case hub_listeners es (b\<lparr>wsClient := h\<rparr>) of (o1, b2) \<Rightarrow>
        (o1 @ concat (map (\<lambda>x. continuation x b2) (settlements es)), b2))"
  by (simp add: after_hub_call_def Let_def case_prod_unfold)

lemmas eval_rules =
  bridge_run_Cons_eval hub_listeners_Cons_eval cloud_listeners_Cons_eval after_hub_call_eval

lemmas eval_dels = bridge_run.simps(2) hub_listeners.simps(2) cloud_listeners.simps(2)

lemma online_bridge_eq:
  "online_bridge =
     \<lparr> wsClient = \<lparr> config = sample_config, ws = Some OPEN, messageId = 2, reconnectTimer = None,
                    authenticated = True, eventSubscriptionId = Some 1, reconnectAttempts = 0,
                    shouldReconnect = True, pendingResponses = Map.empty \<rparr>,
       cloudClient = paired_cloud\<lparr>cloud_authenticated := True, tenantId := Some ''42'',
                                   heartbeatTimer := True\<rparr>,
       bstate = \<lparr> st_haVersion = ''unknown'', haConnected = True, cloudConnected = True,
                  st_entityCount = 0, st_lastEventAt = None, st_reconnectCount = 0 \<rparr>,
       stateChangeQueue = [], batchTimer = False, localDb = [], webServer = None,
       attempts = 0, clock = 0 \<rparr>"
  by (simp add: online_bridge_def new_bridge_def new_ha_client_def paired_cloud_eq
      auth_ok_message_def auth_success_def eval_rules
      on_open_def handleMessage_def subscribeToEvents_def send_def
      cloud_on_open_def cloud_sendAuth_def cloud_send_def cloud_handleMessage_def
      handleAuthResult_def startHeartbeat_def after_cloud_call_def Let_def
      del: eval_dels)


theorem batch_preserves_order_witness:
  "stateChangeQueue online_bridge = []
   \<and> BatchTimerFired \<notin> set four_changes \<and> Stop \<notin> set four_changes
   \<and> map entity_id (state_changes four_changes) = [''light.a'', ''light.b'', ''light.a'', ''light.c'']
   \<and> map (\<lambda>f. (batch_id f, map entityId (batch_events f)))
        (state_batches (fst (flushStateChanges (snd (bridge_run four_changes online_bridge)))))
       = [(''u'', [''light.a'', ''light.b'', ''light.a'', ''light.c''])]"
proof -
  have h1: "stateChangeQueue online_bridge = []"
    by (simp add: online_bridge_eq)
  have h2: "BatchTimerFired \<notin> set four_changes" and h3: "Stop \<notin> set four_changes"
    by (simp_all add: four_changes_def)
  show ?thesis
    using h1 h2 h3 batch_preserves_order [OF h1 h2 h3]
    by (simp add: four_changes_def state_changes_def state_changed_message_def online_bridge_eq
        paired_cloud_eq kitchen_on_def sample_uuid_def eval_rules
        handleMessage_def handleEvent_def handleStateChange_def flushStateChanges_def
        to_batch_event_def sendStateBatch_def cloud_send_def cloud_isConnected_def
        updateStats_def state_batches_def batch_of_def batchIntervalMs_def
        List.map_filter_simps Let_def
        del: eval_dels)
qed

section \<open>Properties of the command path\<close>

lemma settlements_set:
  "(k, r) \<in> set (settlements es) \<longleftrightarrow> Settle k r \<in> set es"
  by (induction es rule: settlements.induct) auto



text \<open>Outputs of the listeners of the hub client never go to the cloud.\<close>

lemma hub_listener_local:
  "x \<in> set (fst (hub_listener e b)) \<Longrightarrow> ack_of x = None \<and> result_of x = None"
  by (cases "(e, b)" rule: hub_listener.cases)
     (auto simp add: handleStateChange_def ack_of_def result_of_def Let_def split: if_splits)

lemma hub_listeners_local:
  "x \<in> set (fst (hub_listeners es b)) \<Longrightarrow> ack_of x = None \<and> result_of x = None"
proof (induction es arbitrary: b)
  case Nil
  then show ?case by simp
next
  case (Cons e es)
  then consider "x = HubDid e" | "x \<in> set (fst (hub_listener e b))"
    | "x \<in> set (fst (hub_listeners es (snd (hub_listener e b))))"
    by auto
  then show ?case
  proof cases
    case 1
    then show ?thesis by (simp add: ack_of_def result_of_def)
  next
    case 2
    then show ?thesis by (rule hub_listener_local)
  next
    case 3
    then show ?thesis by (rule Cons.IH)
  qed
qed

lemma command_settled_outputs:
  "x \<in> set (command_settled c r b) \<Longrightarrow>
     ack_of x = None \<and> result_of x = Some c
     \<and> (failure_code x = None \<or> failure_code x = Some ''EXECUTION_FAILED'')"
  by (auto simp add: command_settled_def sendCommandResult_def cloud_send_def ack_of_def
      result_of_def failure_code_def split: outcome.splits if_splits)

lemma continuation_outputs:
  "x \<in> set (continuation (k, r) b) \<Longrightarrow>
     ack_of x = None \<and> (\<exists>c. k = CommandWaiter c \<and> result_of x = Some c)
     \<and> (failure_code x = None \<or> failure_code x = Some ''EXECUTION_FAILED'')"
  by (cases k) (auto dest: command_settled_outputs)

lemma after_hub_call_outputs:
  assumes "x \<in> set (fst (after_hub_call r b))"
  shows "ack_of x = None
     \<and> (result_of x = Some c \<longrightarrow> (\<exists>v. (CommandWaiter c, v) \<in> set (settlements (fst r))))
     \<and> (failure_code x = None \<or> failure_code x = Some ''EXECUTION_FAILED'')"
proof -
  let ?b1 = "b\<lparr>wsClient := snd r\<rparr>"
  let ?b2 = "snd (hub_listeners (fst r) ?b1)"
  from assms consider "x \<in> set (fst (hub_listeners (fst r) ?b1))"
    | k v where "(k, v) \<in> set (settlements (fst r))" "x \<in> set (continuation (k, v) ?b2)"
    by (auto simp add: after_hub_call_def Let_def)
  then show ?thesis
  proof cases
    case 1
    then have "ack_of x = None \<and> result_of x = None"
      by (rule hub_listeners_local)
    then show ?thesis
      by (cases x) (auto simp add: failure_code_def result_of_def split: hub_effect.splits
          cloud_effect.splits cloud_frame.splits)
  next
    case 2
    from continuation_outputs [OF 2(2)] 2(1) show ?thesis by auto
  qed
qed


lemma sendCommand_settlements:
  "(k', v) \<in> set (settlements (fst (sendCommand k t d s))) \<Longrightarrow> k' = k"
  by (auto simp add: sendCommand_def send_def Let_def split: if_splits)


lemma handleCloudCommand_outputs:
  assumes "x \<in> set (fst (handleCloudCommand c b))"
  shows "ack_of x = None \<and> (result_of x = Some C \<longrightarrow> C = cmdId c)
     \<and> (failure_code x = None \<or> failure_code x = Some ''EXECUTION_FAILED'')"
proof (cases "cmd_payload c")
  case None
  then have "x \<in> set (command_settled (cmdId c) (Rejected ''Cannot destructure property of undefined'') b)"
    using assms by (simp add: handleCloudCommand_def)
  from command_settled_outputs [OF this] show ?thesis by auto
next
  case (Some p)
  let ?r = "callService (CommandWaiter (cmdId c)) (p_domain p) (p_service p)
              (serviceData_or_empty (p_serviceData p)) (wsClient b)"
  have x: "x \<in> set (fst (after_hub_call ?r b))"
    using assms Some by (simp add: handleCloudCommand_def)
  from after_hub_call_outputs [OF x, of C]
  show ?thesis
    by (auto simp add: callService_def dest: sendCommand_settlements)
qed






lemma cloud_step_quiet:
  assumes "\<forall>c. e = CloudWsMessage (Command c) \<longrightarrow> cmdId c \<noteq> C"
    and "x \<in> set (fst (cloud_step now e s))"
  shows "quiet_effect C x"
proof (cases e)
  case CloudWsOpen
  then show ?thesis
    using assms(2)
    by (auto simp add: cloud_on_open_def cloud_sendAuth_def cloud_send_def quiet_effect_def
        ack_of_def result_of_def Let_def split: option.splits if_splits)
next
  case (CloudWsMessage m)
  show ?thesis
  proof (cases m)
    case (AuthResult success tenant err)
    then show ?thesis
      using assms(2) CloudWsMessage
      by (cases "clear (credentialStore s)")
         (auto simp add: cloud_handleMessage_def handleAuthResult_def quiet_effect_def
          ack_of_def result_of_def Let_def split: option.splits if_splits)
  next
    case (Command c)
    then have "cmdId c \<noteq> C"
      using assms(1) CloudWsMessage by simp
    then show ?thesis
      using assms(2) CloudWsMessage Command
      by (auto simp add: cloud_handleMessage_def handleCommand_def sendCommandAck_def
          cloud_send_def quiet_effect_def ack_of_def result_of_def split: if_splits)
  next
    case (RequestFullSync r)
    then show ?thesis
      using assms(2) CloudWsMessage
      by (auto simp add: cloud_handleMessage_def quiet_effect_def ack_of_def result_of_def)
  next
    case RequestHeartbeat
    then show ?thesis
      using assms(2) CloudWsMessage
      by (auto simp add: cloud_handleMessage_def sendHeartbeat_def cloud_send_def
          quiet_effect_def ack_of_def result_of_def split: if_splits)
  next
    case (DisconnectRequest reason)
    then show ?thesis
      using assms(2) CloudWsMessage
      by (cases "clear (credentialStore (s\<lparr>cloud_shouldReconnect := False\<rparr>))")
         (auto simp add: cloud_handleMessage_def cloud_disconnect_def stopHeartbeat_def
          quiet_effect_def ack_of_def result_of_def Let_def split: option.splits if_splits)
  next
    case (UnknownMessage t)
    then show ?thesis
      using assms(2) CloudWsMessage by (simp add: cloud_handleMessage_def)
  qed
next
  case (CloudWsClose code reason)
  then show ?thesis
    using assms(2)
    by (auto simp add: cloud_on_close_def cloud_scheduleReconnect_def stopHeartbeat_def
        quiet_effect_def ack_of_def result_of_def Let_def split: if_splits)
next
  case (CloudWsError err)
  then show ?thesis
    using assms(2)
    by (auto simp add: cloud_on_error_def quiet_effect_def ack_of_def result_of_def)
next
  case CloudReconnectTimerFired
  then show ?thesis
    using assms(2)
    by (auto simp add: cloud_reconnectTimerFired_def cloud_connect_def quiet_effect_def
        ack_of_def result_of_def split: option.splits if_splits)
next
  case HeartbeatTick
  then show ?thesis
    using assms(2)
    by (auto simp add: heartbeatTick_def sendHeartbeat_def cloud_send_def quiet_effect_def
        ack_of_def result_of_def split: if_splits)
next
  case CallCloudConnect
  then show ?thesis
    using assms(2)
    by (auto simp add: cloud_connect_def quiet_effect_def ack_of_def result_of_def
        split: if_splits)
next
  case CallCloudDisconnect
  then show ?thesis
    using assms(2)
    by (auto simp add: cloud_disconnect_def stopHeartbeat_def quiet_effect_def ack_of_def
        result_of_def Let_def split: if_splits)
qed



lemma flush_outputs_local:
  "x \<in> set (fst (flushStateChanges b)) \<Longrightarrow>
     ack_of x = None \<and> result_of x = None \<and> failure_code x = None"
  by (auto simp add: flushStateChanges_def sendStateBatch_def cloud_send_def ack_of_def
      result_of_def failure_code_def Let_def split: if_splits option.splits)

lemma flush_keeps_hub: "wsClient (snd (flushStateChanges b)) = wsClient b"
  by (simp add: flushStateChanges_def Let_def split: option.splits prod.splits)


lemma stop_outputs:
  assumes "x \<in> set (fst (stop b))"
  obtains (flush) "x \<in> set (fst (flushStateChanges b))"
  | (cloud) b1 where "wsClient b1 = wsClient b"
      "x \<in> set (fst (after_cloud_call (cloud_step 0 CallCloudDisconnect (cloudClient b1)) b1))"
  | (hub) b2 where "x \<in> set (fst (after_hub_call (hub_step CallDisconnect (wsClient b2)) b2))"
proof -
  let ?f = "if batchTimer b then flushStateChanges b else ([], b)"
  let ?c = "after_cloud_call (cloud_disconnect (cloudClient (snd ?f))) (snd ?f)"
  let ?h = "after_hub_call (disconnect (wsClient (snd ?c))) (snd ?c)"
  have "fst (stop b) = (if list_ex is_uncaught (fst ?f) then fst ?f else fst ?f @ fst ?c @ fst ?h)"
    by (simp add: stop_def Let_def case_prod_unfold)
  then consider "x \<in> set (fst ?f)" | "x \<in> set (fst ?c)" | "x \<in> set (fst ?h)"
    using assms by (auto split: if_splits)
  then show ?thesis
  proof cases
    case 1
    then show ?thesis using flush by (auto split: if_splits)
  next
    case 2
    have "wsClient (snd ?f) = wsClient b"
      by (simp add: flush_keeps_hub)
    then show ?thesis using cloud [of "snd ?f"] 2 by simp
  next
    case 3
    then show ?thesis using hub [of "snd ?c"] by simp
  qed
qed










lemma cloud_step_no_results:
  assumes "x \<in> set (fst (cloud_step now e s))"
  shows "result_of (CloudDid x) = None"
proof -
  define C where "C = (case e of CloudWsMessage (Command c) \<Rightarrow> CHR ''x'' # cmdId c | _ \<Rightarrow> [])"
  have "\<forall>c. e = CloudWsMessage (Command c) \<longrightarrow> cmdId c \<noteq> C"
    by (auto simp add: C_def)
  from cloud_step_quiet [OF this assms] show ?thesis
    by (simp add: quiet_effect_def)
qed

lemma cloud_listeners_codes:
  assumes "\<forall>e \<in> set es. result_of (CloudDid e) = None"
  shows "\<forall>x \<in> set (fst (cloud_listeners es b)).
           failure_code x = None \<or> failure_code x = Some ''EXECUTION_FAILED''"
  using assms
proof (induction es arbitrary: b)
  case Nil
  then show ?case by simp
next
  case (Cons e es)
  have l: "\<forall>x \<in> set (fst (cloud_listener e b)).
             failure_code x = None \<or> failure_code x = Some ''EXECUTION_FAILED''"
    by (cases "(e, b)" rule: cloud_listener.cases) (auto dest: handleCloudCommand_outputs)
  have "result_of (CloudDid e) = None"
    using Cons.prems by simp
  then have "failure_code (CloudDid e) = None"
    by (cases e) (auto simp add: result_of_def failure_code_def split: cloud_frame.splits)
  with Cons l show ?case by auto
qed

lemma after_cloud_step_codes:
  "\<forall>x \<in> set (fst (after_cloud_call (cloud_step now e c) b)).
     failure_code x = None \<or> failure_code x = Some ''EXECUTION_FAILED''"
  using cloud_listeners_codes [of "fst (cloud_step now e c)"] cloud_step_no_results [of _ now e c]
  by (simp add: after_cloud_call_def)

lemma bridge_step_codes:
  assumes "x \<in> set (fst (bridge_step e b))"
  shows "failure_code x = None \<or> failure_code x = Some ''EXECUTION_FAILED''"
proof -
  have hub: "\<And>r b'. x \<in> set (fst (after_hub_call r b')) \<Longrightarrow> ?thesis"
    using after_hub_call_outputs [of x] by blast
  have cloud: "\<And>e' now c b'. x \<in> set (fst (after_cloud_call (cloud_step now e' c) b')) \<Longrightarrow> ?thesis"
    using after_cloud_step_codes by blast
  show ?thesis
  proof (cases e)
    case (Tick t)
    then show ?thesis using assms by simp
  next
    case CloudOpen
    then show ?thesis using assms cloud [of _ CloudWsOpen] by simp
  next
    case (CloudMessage m)
    then show ?thesis using assms cloud [of "clock b" "CloudWsMessage m"] by simp
  next
    case (CloudClose code reason)
    then show ?thesis using assms cloud [of _ "CloudWsClose code reason"] by simp
  next
    case (CloudError err)
    then show ?thesis using assms cloud [of _ "CloudWsError err"] by simp
  next
    case CloudReconnectTimer
    then show ?thesis using assms cloud [of _ CloudReconnectTimerFired] by simp
  next
    case CloudHeartbeatTimer
    then show ?thesis using assms cloud [of "clock b" HeartbeatTick] by simp
  next
    case BatchTimerFired
    then show ?thesis using assms flush_outputs_local [of x b] by (auto split: if_splits)
  next
    case Stop
    then have "x \<in> set (fst (stop b))" using assms by simp
    then show ?thesis
    proof (cases rule: stop_outputs)
      case flush
      then show ?thesis using flush_outputs_local [of x b] by simp
    next
      case (cloud b1)
      then show ?thesis using after_cloud_step_codes by blast
    next
      case (hub b2)
      then show ?thesis using after_hub_call_outputs [of x] by blast
    qed
  qed (use assms hub in \<open>auto\<close>)
qed

lemma bridge_run_codes:
  "\<forall>x \<in> set (fst (bridge_run evs b)).
     failure_code x = None \<or> failure_code x = Some ''EXECUTION_FAILED''"
proof (induction evs arbitrary: b)
  case Nil
  then show ?case by simp
next
  case (Cons e evs)
  from bridge_step_codes [of _ e b] Cons.IH show ?case by auto
qed

text \<open>
  C6 (as amended). The executor does not look at \<open>commandType\<close>: a command is handled
  exactly as the same command with any other \<open>commandType\<close>, recognized or not. When the
  payload is present and the hub session is authenticated with its socket open, the one
  request written to the hub is the \<open>call_service\<close> RPC built from the payload (domain,
  service, and serviceData or the empty object). When the payload is missing or the hub
  session is not authenticated, no request is written to the hub and the command fails at
  once, with the code \<open>EXECUTION_FAILED\<close> in the result written to the cloud (nothing is
  written when the cloud socket is not open). Whatever the bridge receives, every failed
  \<open>command_result\<close> it writes carries the error code \<open>EXECUTION_FAILED\<close>.
\<close>

theorem executor_ignores_commandType:
  "handleCloudCommand (c\<lparr>commandType := t\<rparr>) b = handleCloudCommand c b
   \<and> set (failure_codes (fst (bridge_run evs b))) \<subseteq> {''EXECUTION_FAILED''}
   \<and> (cmd_payload c = Some p \<and> authenticated (wsClient b) \<and> ws (wsClient b) = Some OPEN \<longrightarrow>
        hub_requests (fst (handleCloudCommand c b))
          = [Request (messageId (wsClient b)) ''call_service''
               (ServiceCall (p_domain p) (p_service p) (serviceData_or_empty (p_serviceData p)))])
   \<and> (cmd_payload c = None \<or> \<not> authenticated (wsClient b) \<longrightarrow>
        hub_requests (fst (handleCloudCommand c b)) = []
        \<and> failure_codes (fst (handleCloudCommand c b))
            = (if cloud_ws (cloudClient b) = Some OPEN then [''EXECUTION_FAILED''] else []))"
proof -
  have 1: "handleCloudCommand (c\<lparr>commandType := t\<rparr>) b = handleCloudCommand c b"
    by (simp add: handleCloudCommand_def split: option.splits)
  have 2: "set (failure_codes (fst (bridge_run evs b))) \<subseteq> {''EXECUTION_FAILED''}"
    using bridge_run_codes [of evs b]
    by (auto simp add: failure_codes_def List.map_filter_def)
  have 3: "cmd_payload c = Some p \<and> authenticated (wsClient b) \<and> ws (wsClient b) = Some OPEN \<longrightarrow>
        hub_requests (fst (handleCloudCommand c b))
          = [Request (messageId (wsClient b)) ''call_service''
               (ServiceCall (p_domain p) (p_service p) (serviceData_or_empty (p_serviceData p)))]"
    by (simp add: handleCloudCommand_def callService_def sendCommand_def send_def
        after_hub_call_def hub_requests_def hub_request_def List.map_filter_simps Let_def)
  have 4: "cmd_payload c = None \<or> \<not> authenticated (wsClient b) \<longrightarrow>
        hub_requests (fst (handleCloudCommand c b)) = []
        \<and> failure_codes (fst (handleCloudCommand c b))
            = (if cloud_ws (cloudClient b) = Some OPEN then [''EXECUTION_FAILED''] else [])"
    by (auto simp add: handleCloudCommand_def callService_def sendCommand_def
        after_hub_call_def command_settled_def sendCommandResult_def cloud_send_def
        hub_requests_def hub_request_def failure_codes_def failure_code_def
        List.map_filter_simps Let_def split: option.splits)
  from 1 2 3 4 show ?thesis by blast
qed


theorem executor_ignores_commandType_witness:
  "cmd_payload (sample_command ''ha_unknown'') = Some turn_on
   \<and> authenticated (wsClient online_bridge) \<and> ws (wsClient online_bridge) = Some OPEN
   \<and> hub_requests (fst (handleCloudCommand (sample_command ''ha_unknown'') online_bridge))
       = [Request 2 ''call_service''
            (ServiceCall (Some ''light'') (Some ''turn_on'') ''{\"entity_id\":\"light.kitchen\"}'')]"
proof -
  have h1: "cmd_payload (sample_command ''ha_unknown'') = Some turn_on"
    by (simp add: sample_command_def)
  have h2: "authenticated (wsClient online_bridge)"
    and h3: "ws (wsClient online_bridge) = Some OPEN"
    and m: "messageId (wsClient online_bridge) = 2"
    by (simp_all add: online_bridge_eq)
  show ?thesis
    using h1 h2 h3 m
      executor_ignores_commandType [where c = "sample_command ''ha_unknown''"
        and t = "''ha_unknown''" and b = online_bridge and evs = "[]" and p = turn_on]
    by (simp add: turn_on_def serviceData_or_empty_def)
qed


text \<open>
  C6 as stated fails: for a command of the unknown type \<open>ha_unknown\<close> the bridge writes
  a \<open>call_service\<close> request to the hub and, at that point, no \<open>command_result\<close>; when
  the request then times out, the result it reports has the code \<open>EXECUTION_FAILED\<close>.
\<close>

theorem unknown_command_counterexample:
  "hub_requests (fst (bridge_step (CloudMessage (Command (sample_command ''ha_unknown'')))
      online_bridge))
     = [Request 2 ''call_service''
          (ServiceCall (Some ''light'') (Some ''turn_on'') ''{\"entity_id\":\"light.kitchen\"}'')]
   \<and> filter (is_result ''11111111-1111-1111-1111-111111111111'')
        (fst (bridge_step (CloudMessage (Command (sample_command ''ha_unknown''))) online_bridge))
     = []
   \<and> failure_codes (fst (bridge_run
        [CloudMessage (Command (sample_command ''ha_unknown'')), HubCommandTimer 2]
        online_bridge))
     = [''EXECUTION_FAILED'']"
  by (simp add: online_bridge_eq paired_cloud_eq sample_command_def turn_on_def eval_rules
      cloud_handleMessage_def handleCommand_def sendCommandAck_def cloud_send_def
      after_cloud_call_def handleCloudCommand_def callService_def sendCommand_def send_def
      serviceData_or_empty_def commandTimeout_def command_settled_def sendCommandResult_def
      hub_requests_def hub_request_def failure_codes_def failure_code_def
      is_result_def result_of_def Let_def
      del: eval_dels)




end